theory Spec2Isabelle
  imports Complex_Main
begin

section \<open>The relational store (prisma/schema.prisma)\<close>

text \<open>
  Every model of the Prisma schema is a record, every table a list of rows in storage
  order.  A column shared by several tables (\<open>id\<close>, \<open>userId\<close>, \<open>sessionId\<close>,
  \<open>characterId\<close>) carries the table's initial as a prefix.  Numbers are unbounded
  integers: the 32-bit range of the \<open>Int\<close> columns and the 53-bit precision of the
  JavaScript numbers are not modelled.  The columns \<open>createdAt\<close> and \<open>timestamp\<close>
  (database clock) are left out; the \<open>Json\<close> columns of a character are opaque text.
\<close>

type_synonym json = string

record user =
  u_id :: int
  u_username :: string
  u_email :: string
  u_password :: string

record character =
  c_id :: int
  c_name :: string
  c_race :: string
  c_class :: string
  c_level :: int
  c_background :: "string option"
  c_inventory :: "json option"
  c_stats :: "json option"
  c_isAlive :: bool
  c_userId :: int
  c_sessionId :: "int option"

record session =
  s_id :: int
  s_title :: string
  s_description :: "string option"
  s_scheduledAt :: "string option"
  s_status :: string
  s_gmId :: int

record participant =
  p_id :: int
  p_sessionId :: int
  p_userId :: int
  p_characterId :: "int option"
  p_role :: string

text \<open>The \<open>metadata\<close> column of a dice roll holds the \<open>details\<close> object of
  \<open>calculateDiceRoll\<close>.\<close>

record roll_details =
  md_expression :: string
  md_rolls :: "int list"
  md_modifier :: int
  md_total :: int

record diceRoll =
  d_id :: int
  d_rollExpression :: string
  d_result :: int
  d_userId :: int
  d_characterId :: "int option"
  d_sessionId :: int
  d_metadata :: roll_details

text \<open>The five tables and the next value of each \<open>autoincrement()\<close> sequence.\<close>

record store =
  users :: "user list"
  characters :: "character list"
  sessions :: "session list"
  participants :: "participant list"
  diceRolls :: "diceRoll list"
  userSeq :: int
  characterSeq :: int
  sessionSeq :: int
  participantSeq :: int
  diceRollSeq :: int

definition empty_store :: store where
  "empty_store = \<lparr>users = [], characters = [], sessions = [], participants = [],
     diceRolls = [], userSeq = 1, characterSeq = 1, sessionSeq = 1, participantSeq = 1,
     diceRollSeq = 1\<rparr>"

text \<open>What a Prisma call throws; every handler's \<open>catch\<close> turns it into status 500.\<close>

datatype prisma_error = ForeignKeyViolation | UniqueViolation | RecordNotFound

subsection \<open>Queries\<close>

definition user_findUnique :: "store \<Rightarrow> int \<Rightarrow> user option" where
  "user_findUnique s i = find (\<lambda>u. u_id u = i) (users s)"

definition character_findUnique :: "store \<Rightarrow> int \<Rightarrow> character option" where
  "character_findUnique s i = find (\<lambda>c. c_id c = i) (characters s)"

definition session_findUnique :: "store \<Rightarrow> int \<Rightarrow> session option" where
  "session_findUnique s i = find (\<lambda>x. s_id x = i) (sessions s)"

definition sessionParticipants_findUnique :: "store \<Rightarrow> int \<Rightarrow> participant option" where
  "sessionParticipants_findUnique s i = find (\<lambda>p. p_id p = i) (participants s)"

text \<open>\<open>character.findFirst({ where: { id, userId } })\<close>, also written with
  \<open>findUnique\<close> in \<open>sessionController.addParticipant\<close>.\<close>

definition character_findOwned :: "store \<Rightarrow> int \<Rightarrow> int \<Rightarrow> character option" where
  "character_findOwned s i uid = find (\<lambda>c. c_id c = i \<and> c_userId c = uid) (characters s)"

text \<open>\<open>sessionParticipants.findFirst({ where: { sessionId, userId } })\<close>\<close>

definition participant_findFirst :: "store \<Rightarrow> int \<Rightarrow> int \<Rightarrow> participant option" where
  "participant_findFirst s sid uid =
     find (\<lambda>p. p_sessionId p = sid \<and> p_userId p = uid) (participants s)"

text \<open>\<open>sessionParticipants.findFirst({ where: { sessionId, userId, role: 'admin' } })\<close>\<close>

definition sessionAdmin_findFirst :: "store \<Rightarrow> int \<Rightarrow> int \<Rightarrow> participant option" where
  "sessionAdmin_findFirst s sid uid =
     find (\<lambda>p. p_sessionId p = sid \<and> p_userId p = uid \<and> p_role p = ''admin'') (participants s)"

text \<open>\<open>sessionParticipants.findFirst({ where: { userId, role: 'admin' } })\<close>: the
  system-wide administrator test.\<close>

definition systemAdmin_findFirst :: "store \<Rightarrow> int \<Rightarrow> participant option" where
  "systemAdmin_findFirst s uid =
     find (\<lambda>p. p_userId p = uid \<and> p_role p = ''admin'') (participants s)"

text \<open>The relation \<open>include: { participants: true }\<close> of a session.\<close>

definition session_participants :: "store \<Rightarrow> session \<Rightarrow> participant list" where
  "session_participants s x = filter (\<lambda>p. p_sessionId p = s_id x) (participants s)"

subsection \<open>Foreign keys and unique columns\<close>

text \<open>
  The schema's relations are foreign keys of the database, created by the migration
  with \<open>ON DELETE RESTRICT\<close> for a required relation (\<open>Character.user\<close>,
  \<open>Session.gm\<close>, \<open>SessionParticipants.session\<close>, \<open>SessionParticipants.user\<close>,
  \<open>DiceRoll.user\<close>, \<open>DiceRoll.session\<close>): deleting the row it points to is refused;
  and with \<open>ON DELETE SET NULL\<close> for an optional one (\<open>Character.session\<close>,
  \<open>SessionParticipants.character\<close>, \<open>DiceRoll.character\<close>): it is set to null.  A
  write whose foreign key names no row is refused.  \<open>User.username\<close> and \<open>User.email\<close>
  are unique.

  A sequence advances with every row inserted.  The database also skips a value when
  an insert is refused; the model does not, which changes the identifiers given to
  later rows and nothing else.
\<close>

definition user_exists :: "store \<Rightarrow> int \<Rightarrow> bool" where
  "user_exists s i = (user_findUnique s i \<noteq> None)"

definition character_exists :: "store \<Rightarrow> int \<Rightarrow> bool" where
  "character_exists s i = (character_findUnique s i \<noteq> None)"

definition session_exists :: "store \<Rightarrow> int \<Rightarrow> bool" where
  "session_exists s i = (session_findUnique s i \<noteq> None)"

definition opt_character_exists :: "store \<Rightarrow> int option \<Rightarrow> bool" where
  "opt_character_exists s c = (case c of None \<Rightarrow> True | Some i \<Rightarrow> character_exists s i)"

definition opt_session_exists :: "store \<Rightarrow> int option \<Rightarrow> bool" where
  "opt_session_exists s c = (case c of None \<Rightarrow> True | Some i \<Rightarrow> session_exists s i)"

subsection \<open>Writes\<close>

definition user_create :: "store \<Rightarrow> string \<Rightarrow> string \<Rightarrow> string \<Rightarrow> prisma_error + store" where
  "user_create s un em pw =
     (if list_ex (\<lambda>u. u_username u = un \<or> u_email u = em) (users s) then Inl UniqueViolation
      else Inr (s\<lparr>users := users s @
                   [\<lparr>u_id = userSeq s, u_username = un, u_email = em, u_password = pw\<rparr>],
                 userSeq := userSeq s + 1\<rparr>))"

definition user_update :: "store \<Rightarrow> int \<Rightarrow> (user \<Rightarrow> user) \<Rightarrow> prisma_error + store" where
  "user_update s i f =
     (case user_findUnique s i of
        None \<Rightarrow> Inl RecordNotFound
      | Some u \<Rightarrow>
          if list_ex (\<lambda>v. u_id v \<noteq> i \<and>
                 (u_username v = u_username (f u) \<or> u_email v = u_email (f u))) (users s)
          then Inl UniqueViolation
          else Inr (s\<lparr>users := map (\<lambda>v. if u_id v = i then f v else v) (users s)\<rparr>))"

definition user_delete :: "store \<Rightarrow> int \<Rightarrow> prisma_error + store" where
  "user_delete s i =
     (if \<not> user_exists s i then Inl RecordNotFound
      else if list_ex (\<lambda>c. c_userId c = i) (characters s)
            \<or> list_ex (\<lambda>x. s_gmId x = i) (sessions s)
            \<or> list_ex (\<lambda>p. p_userId p = i) (participants s)
            \<or> list_ex (\<lambda>d. d_userId d = i) (diceRolls s)
      then Inl ForeignKeyViolation
      else Inr (s\<lparr>users := filter (\<lambda>u. u_id u \<noteq> i) (users s)\<rparr>))"

definition character_create :: "store \<Rightarrow> character \<Rightarrow> prisma_error + store" where
  "character_create s c =
     (if \<not> user_exists s (c_userId c) \<or> \<not> opt_session_exists s (c_sessionId c)
      then Inl ForeignKeyViolation
      else Inr (s\<lparr>characters := characters s @ [c\<lparr>c_id := characterSeq s\<rparr>],
                 characterSeq := characterSeq s + 1\<rparr>))"

definition character_update :: "store \<Rightarrow> int \<Rightarrow> (character \<Rightarrow> character) \<Rightarrow> prisma_error + store"
  where
  "character_update s i f =
     (case character_findUnique s i of
        None \<Rightarrow> Inl RecordNotFound
      | Some c \<Rightarrow>
          if \<not> opt_session_exists s (c_sessionId (f c)) then Inl ForeignKeyViolation
          else Inr (s\<lparr>characters := map (\<lambda>v. if c_id v = i then f v else v) (characters s)\<rparr>))"

text \<open>\<open>character.updateMany({ where: { sessionId }, data: { sessionId: null } })\<close>\<close>

definition character_detachSession :: "store \<Rightarrow> int \<Rightarrow> store" where
  "character_detachSession s sid =
     s\<lparr>characters := map (\<lambda>c. if c_sessionId c = Some sid then c\<lparr>c_sessionId := None\<rparr> else c)
                          (characters s)\<rparr>"

text \<open>Deleting characters sets the optional references to them to null.\<close>

definition character_deleteWhere :: "store \<Rightarrow> (character \<Rightarrow> bool) \<Rightarrow> store" where
  "character_deleteWhere s P =
     (let gone = map c_id (filter P (characters s)) in
      s\<lparr>characters := filter (\<lambda>c. \<not> P c) (characters s),
        participants := map (\<lambda>p. if (case p_characterId p of None \<Rightarrow> False | Some c \<Rightarrow> c \<in> set gone)
                                   then p\<lparr>p_characterId := None\<rparr> else p) (participants s),
        diceRolls := map (\<lambda>d. if (case d_characterId d of None \<Rightarrow> False | Some c \<Rightarrow> c \<in> set gone)
                                then d\<lparr>d_characterId := None\<rparr> else d) (diceRolls s)\<rparr>)"

definition character_deleteMany :: "store \<Rightarrow> (character \<Rightarrow> bool) \<Rightarrow> prisma_error + store" where
  "character_deleteMany s P = Inr (character_deleteWhere s P)"

definition character_delete :: "store \<Rightarrow> int \<Rightarrow> prisma_error + store" where
  "character_delete s i =
     (if \<not> character_exists s i then Inl RecordNotFound
      else Inr (character_deleteWhere s (\<lambda>c. c_id c = i)))"

definition session_create ::
  "store \<Rightarrow> string \<Rightarrow> string option \<Rightarrow> string option \<Rightarrow> string \<Rightarrow> int \<Rightarrow> prisma_error + (session \<times> store)"
  where
  "session_create s t d sch st gm =
     (if \<not> user_exists s gm then Inl ForeignKeyViolation
      else (let x = \<lparr>s_id = sessionSeq s, s_title = t, s_description = d, s_scheduledAt = sch,
                      s_status = st, s_gmId = gm\<rparr>
            in Inr (x, s\<lparr>sessions := sessions s @ [x], sessionSeq := sessionSeq s + 1\<rparr>)))"

definition session_update :: "store \<Rightarrow> int \<Rightarrow> (session \<Rightarrow> session) \<Rightarrow> prisma_error + store" where
  "session_update s i f =
     (case session_findUnique s i of
        None \<Rightarrow> Inl RecordNotFound
      | Some x \<Rightarrow> Inr (s\<lparr>sessions := map (\<lambda>v. if s_id v = i then f v else v) (sessions s)\<rparr>))"

text \<open>Deleting sessions is refused while a participant or a dice roll points to one of
  them; characters attached to them are detached.\<close>

definition session_deleteWhere :: "store \<Rightarrow> (session \<Rightarrow> bool) \<Rightarrow> prisma_error + store" where
  "session_deleteWhere s P =
     (let gone = map s_id (filter P (sessions s)) in
      if list_ex (\<lambda>p. p_sessionId p \<in> set gone) (participants s)
         \<or> list_ex (\<lambda>d. d_sessionId d \<in> set gone) (diceRolls s)
      then Inl ForeignKeyViolation
      else Inr (s\<lparr>sessions := filter (\<lambda>x. \<not> P x) (sessions s),
                 characters := map (\<lambda>c. if (case c_sessionId c of None \<Rightarrow> False
                                              | Some i \<Rightarrow> i \<in> set gone)
                                         then c\<lparr>c_sessionId := None\<rparr> else c) (characters s)\<rparr>))"

definition session_deleteMany :: "store \<Rightarrow> (session \<Rightarrow> bool) \<Rightarrow> prisma_error + store" where
  "session_deleteMany s P = session_deleteWhere s P"

definition session_delete :: "store \<Rightarrow> int \<Rightarrow> prisma_error + store" where
  "session_delete s i =
     (if \<not> session_exists s i then Inl RecordNotFound
      else session_deleteWhere s (\<lambda>x. s_id x = i))"

definition sessionParticipants_create ::
  "store \<Rightarrow> int \<Rightarrow> int \<Rightarrow> int option \<Rightarrow> string \<Rightarrow> prisma_error + store" where
  "sessionParticipants_create s sid uid cid r =
     (if \<not> session_exists s sid \<or> \<not> user_exists s uid \<or> \<not> opt_character_exists s cid
      then Inl ForeignKeyViolation
      else Inr (s\<lparr>participants := participants s @
                   [\<lparr>p_id = participantSeq s, p_sessionId = sid, p_userId = uid,
                     p_characterId = cid, p_role = r\<rparr>],
                 participantSeq := participantSeq s + 1\<rparr>))"

definition sessionParticipants_update ::
  "store \<Rightarrow> int \<Rightarrow> (participant \<Rightarrow> participant) \<Rightarrow> prisma_error + store" where
  "sessionParticipants_update s i f =
     (case sessionParticipants_findUnique s i of
        None \<Rightarrow> Inl RecordNotFound
      | Some p \<Rightarrow>
          if \<not> opt_character_exists s (p_characterId (f p)) then Inl ForeignKeyViolation
          else Inr (s\<lparr>participants := map (\<lambda>v. if p_id v = i then f v else v) (participants s)\<rparr>))"

definition sessionParticipants_deleteMany :: "store \<Rightarrow> (participant \<Rightarrow> bool) \<Rightarrow> store" where
  "sessionParticipants_deleteMany s P = s\<lparr>participants := filter (\<lambda>p. \<not> P p) (participants s)\<rparr>"

definition sessionParticipants_delete :: "store \<Rightarrow> int \<Rightarrow> prisma_error + store" where
  "sessionParticipants_delete s i =
     (if sessionParticipants_findUnique s i = None then Inl RecordNotFound
      else Inr (sessionParticipants_deleteMany s (\<lambda>p. p_id p = i)))"

definition diceRoll_create ::
  "store \<Rightarrow> string \<Rightarrow> int \<Rightarrow> int \<Rightarrow> int \<Rightarrow> int option \<Rightarrow> roll_details \<Rightarrow> prisma_error + store" where
  "diceRoll_create s e res uid sid cid md =
     (if \<not> user_exists s uid \<or> \<not> session_exists s sid \<or> \<not> opt_character_exists s cid
      then Inl ForeignKeyViolation
      else Inr (s\<lparr>diceRolls := diceRolls s @
                   [\<lparr>d_id = diceRollSeq s, d_rollExpression = e, d_result = res, d_userId = uid,
                     d_characterId = cid, d_sessionId = sid, d_metadata = md\<rparr>],
                 diceRollSeq := diceRollSeq s + 1\<rparr>))"

definition diceRoll_deleteMany :: "store \<Rightarrow> (diceRoll \<Rightarrow> bool) \<Rightarrow> store" where
  "diceRoll_deleteMany s P = s\<lparr>diceRolls := filter (\<lambda>d. \<not> P d) (diceRolls s)\<rparr>"

text \<open>A handler's \<open>try { ... } catch\<close>: a throwing call ends the request with status
  500 and the store as the earlier calls left it (no handler opens a transaction).\<close>

definition orElse500 :: "store \<Rightarrow> prisma_error + store \<Rightarrow> (store \<Rightarrow> nat \<times> store) \<Rightarrow> nat \<times> store"
  where
  "orElse500 s r k = (case r of Inl e \<Rightarrow> (500, s) | Inr s' \<Rightarrow> k s')"

text \<open>JavaScript truthiness of a request field: a missing field, \<open>null\<close>, \<open>0\<close> and the
  empty string are falsy.  Request bodies are taken well typed (identifiers are
  integers, names and roles are strings).\<close>

definition truthy_int :: "int option \<Rightarrow> bool" where
  "truthy_int v = (case v of None \<Rightarrow> False | Some n \<Rightarrow> n \<noteq> 0)"

definition truthy_str :: "string option \<Rightarrow> bool" where
  "truthy_str v = (case v of None \<Rightarrow> False | Some t \<Rightarrow> t \<noteq> [])"

section \<open>userController\<close>

text \<open>
  Every handler takes the identifier \<open>me\<close> of the authenticated principal
  (\<open>req.user.id\<close>), the route parameters as \<open>parseInt\<close> left them (\<open>None\<close> is
  \<open>NaN\<close>), the fields of the request body, and the store; it returns the HTTP status
  and the store it leaves.  \<open>bcrypt.hash\<close> is the parameter \<open>h\<close>.
\<close>

definition register ::
  "(string \<Rightarrow> string) \<Rightarrow> string option \<Rightarrow> string option \<Rightarrow> string option \<Rightarrow> store \<Rightarrow> nat \<times> store"
  where
  "register h username email password s =
     (if \<not> truthy_str username \<or> \<not> truthy_str email \<or> \<not> truthy_str password then (400, s)
      else if list_ex (\<lambda>u. u_email u = the email \<or> u_username u = the username) (users s)
      then (400, s)
      else orElse500 s (user_create s (the username) (the email) (h (the password)))
             (\<lambda>s1. (201, s1)))"

text \<open>The answer selects the columns \<open>id\<close>, \<open>username\<close> and \<open>email\<close> (and the user's
  relations, which are not modelled).\<close>

definition getUserById :: "int option \<Rightarrow> store \<Rightarrow> nat \<times> (int \<times> string \<times> string) option" where
  "getUserById idParam s =
     (case idParam of
        None \<Rightarrow> (400, None)
      | Some userId \<Rightarrow>
          (case user_findUnique s userId of
             None \<Rightarrow> (404, None)
           | Some u \<Rightarrow> (200, Some (u_id u, u_username u, u_email u))))"

definition updateUser ::
  "(string \<Rightarrow> string) \<Rightarrow> int \<Rightarrow> int option \<Rightarrow> string option \<Rightarrow> string option \<Rightarrow> string option
     \<Rightarrow> store \<Rightarrow> nat \<times> store" where
  "updateUser h me idParam username email password s =
     (case idParam of
        None \<Rightarrow> (400, s)
      | Some userId \<Rightarrow>
          (case user_findUnique s userId of
             None \<Rightarrow> (404, s)
           | Some existingUser \<Rightarrow>
               if me \<noteq> userId \<and> systemAdmin_findFirst s me = None then (403, s)
               else orElse500 s
                 (user_update s userId
                    (\<lambda>u. u\<lparr>u_username := (if truthy_str username then the username else u_username u),
                            u_email := (if truthy_str email then the email else u_email u),
                            u_password := (if truthy_str password then h (the password)
                                           else u_password u)\<rparr>))
                 (\<lambda>s1. (200, s1))))"

definition deleteUser :: "int \<Rightarrow> int option \<Rightarrow> store \<Rightarrow> nat \<times> store" where
  "deleteUser me idParam s =
     (case idParam of
        None \<Rightarrow> (400, s)
      | Some userId \<Rightarrow>
          (case user_findUnique s userId of
             None \<Rightarrow> (404, s)
           | Some existingUser \<Rightarrow>
               if me \<noteq> userId \<and> systemAdmin_findFirst s me = None then (403, s)
               else
                 (let s1 = sessionParticipants_deleteMany s (\<lambda>p. p_userId p = userId);
                      s2 = diceRoll_deleteMany s1 (\<lambda>d. d_userId d = userId)
                  in orElse500 s2 (character_deleteMany s2 (\<lambda>c. c_userId c = userId))
                       (\<lambda>s3. orElse500 s3 (session_deleteMany s3 (\<lambda>x. s_gmId x = userId))
                          (\<lambda>s4. orElse500 s4 (user_delete s4 userId)
                             (\<lambda>s5. (200, s5)))))))"

section \<open>characterController\<close>

definition createCharacter ::
  "int \<Rightarrow> string option \<Rightarrow> string option \<Rightarrow> string option \<Rightarrow> int option \<Rightarrow> string option
     \<Rightarrow> json option \<Rightarrow> json option \<Rightarrow> store \<Rightarrow> nat \<times> store" where
  "createCharacter me name race characterClass level background inventory stats s =
     (if \<not> truthy_str name \<or> \<not> truthy_str race \<or> \<not> truthy_str characterClass
         \<or> \<not> truthy_int level then (400, s)
      else orElse500 s
             (character_create s
                \<lparr>c_id = 0, c_name = the name, c_race = the race, c_class = the characterClass,
                 c_level = the level, c_background = background, c_inventory = inventory,
                 c_stats = stats, c_isAlive = True, c_userId = me, c_sessionId = None\<rparr>)
             (\<lambda>s1. (201, s1)))"

text \<open>\<open>include: { session: true }\<close> of a character.\<close>

definition character_session :: "store \<Rightarrow> character \<Rightarrow> session option" where
  "character_session s c =
     (case c_sessionId c of None \<Rightarrow> None | Some sid \<Rightarrow> session_findUnique s sid)"

text \<open>The body of a character update: a field that is \<open>undefined\<close> is \<open>None\<close>; a
  nullable field that is present is \<open>Some\<close> of its value, \<open>Some None\<close> for \<open>null\<close>.\<close>

record character_update_body =
  cu_name :: "string option"
  cu_race :: "string option"
  cu_class :: "string option"
  cu_level :: "int option"
  cu_background :: "string option option"
  cu_inventory :: "json option option"
  cu_stats :: "json option option"
  cu_isAlive :: "bool option"
  cu_sessionId :: "int option option"

definition character_updateData :: "character_update_body \<Rightarrow> character \<Rightarrow> character" where
  "character_updateData b c =
     c\<lparr>c_name := (if truthy_str (cu_name b) then the (cu_name b) else c_name c),
       c_race := (if truthy_str (cu_race b) then the (cu_race b) else c_race c),
       c_class := (if truthy_str (cu_class b) then the (cu_class b) else c_class c),
       c_level := (case cu_level b of None \<Rightarrow> c_level c | Some l \<Rightarrow> l),
       c_background := (case cu_background b of None \<Rightarrow> c_background c | Some v \<Rightarrow> v),
       c_inventory := (case cu_inventory b of None \<Rightarrow> c_inventory c | Some v \<Rightarrow> v),
       c_stats := (case cu_stats b of None \<Rightarrow> c_stats c | Some v \<Rightarrow> v),
       c_isAlive := (case cu_isAlive b of None \<Rightarrow> c_isAlive c | Some v \<Rightarrow> v),
       c_sessionId := (case cu_sessionId b of None \<Rightarrow> c_sessionId c
                       | Some v \<Rightarrow> (if truthy_int v then v else None))\<rparr>"

definition updateCharacter :: "int \<Rightarrow> int option \<Rightarrow> character_update_body \<Rightarrow> store \<Rightarrow> nat \<times> store"
  where
  "updateCharacter me idParam b s =
     (case idParam of
        None \<Rightarrow> (400, s)
      | Some characterId \<Rightarrow>
          (case character_findUnique s characterId of
             None \<Rightarrow> (404, s)
           | Some character \<Rightarrow>
               (let isOwner = (c_userId character = me);
                    isGM = (case character_session s character of None \<Rightarrow> False
                            | Some x \<Rightarrow> s_gmId x = me);
                    isAdmin = (case character_session s character of None \<Rightarrow> False
                               | Some x \<Rightarrow> sessionAdmin_findFirst s (s_id x) me \<noteq> None)
                in if \<not> isOwner \<and> \<not> isGM \<and> \<not> isAdmin then (403, s)
                   else if \<not> isOwner \<and> \<not> isAdmin \<and>
                           (truthy_str (cu_name b) \<or> truthy_str (cu_race b) \<or> truthy_str (cu_class b))
                   then (403, s)
                   else orElse500 s (character_update s characterId (character_updateData b))
                          (\<lambda>s1. (200, s1)))))"

definition deleteCharacter :: "int \<Rightarrow> int option \<Rightarrow> store \<Rightarrow> nat \<times> store" where
  "deleteCharacter me idParam s =
     (case idParam of
        None \<Rightarrow> (400, s)
      | Some characterId \<Rightarrow>
          (case character_findUnique s characterId of
             None \<Rightarrow> (404, s)
           | Some character \<Rightarrow>
               (let isOwner = (c_userId character = me);
                    isAdmin = (systemAdmin_findFirst s me \<noteq> None)
                in if \<not> isOwner \<and> \<not> isAdmin then (403, s)
                   else
                     (let s1 = sessionParticipants_deleteMany s
                                 (\<lambda>p. p_characterId p = Some characterId);
                          s2 = diceRoll_deleteMany s1 (\<lambda>d. d_characterId d = Some characterId)
                      in orElse500 s2 (character_delete s2 characterId) (\<lambda>s3. (200, s3))))))"

definition associateWithSession :: "int \<Rightarrow> int option \<Rightarrow> int option option \<Rightarrow> store \<Rightarrow> nat \<times> store"
  where
  "associateWithSession me idParam sessionId s =
     (case idParam of
        None \<Rightarrow> (400, s)
      | Some characterId \<Rightarrow>
          (case sessionId of
             None \<Rightarrow> (400, s)
           | Some sessionIdBody \<Rightarrow>
               (let sessionIdNum = (if truthy_int sessionIdBody then sessionIdBody else None)
                in case character_findOwned s characterId me of
                     None \<Rightarrow> (404, s)
                   | Some character \<Rightarrow>
                       (case sessionIdNum of
                          None \<Rightarrow>
                            orElse500 s
                              (character_update s characterId (\<lambda>c. c\<lparr>c_sessionId := None\<rparr>))
                              (\<lambda>s1. (200, s1))
                        | Some sid \<Rightarrow>
                            (case session_findUnique s sid of
                               None \<Rightarrow> (404, s)
                             | Some x \<Rightarrow>
                                 if \<not> list_ex (\<lambda>p. p_userId p = me) (session_participants s x)
                                    \<and> s_gmId x \<noteq> me
                                 then (403, s)
                                 else orElse500 s
                                   (character_update s characterId (\<lambda>c. c\<lparr>c_sessionId := Some sid\<rparr>))
                                   (\<lambda>s1.
                                      (case participant_findFirst s1 sid me of
                                         Some existingParticipant \<Rightarrow>
                                           orElse500 s1
                                             (sessionParticipants_update s1 (p_id existingParticipant)
                                                (\<lambda>p. p\<lparr>p_characterId := Some characterId\<rparr>))
                                             (\<lambda>s2. (200, s2))
                                       | None \<Rightarrow>
                                           orElse500 s1
                                             (sessionParticipants_create s1 sid me (Some characterId)
                                                ''joueur'')
                                             (\<lambda>s2. (200, s2)))))))))"

section \<open>sessionController\<close>

text \<open>The default status of a session (the French for ``planned''), its accented letter as the two bytes of UTF-8.\<close>

definition status_default :: string where
  "status_default = ''planifi'' @ [CHR 0xC3, CHR 0xA9] @ ''e''"

text \<open>A date is kept as the text the request gave; \<open>new Date\<close> is not modelled.\<close>

definition createSession ::
  "int \<Rightarrow> string option \<Rightarrow> string option \<Rightarrow> string option \<Rightarrow> string option \<Rightarrow> store \<Rightarrow> nat \<times> store"
  where
  "createSession me title description scheduledAt status s =
     (if \<not> truthy_str title then (400, s)
      else
        (case session_create s (the title) description
                (if truthy_str scheduledAt then scheduledAt else None)
                (if truthy_str status then the status else status_default) me of
           Inl e \<Rightarrow> (500, s)
         | Inr (x, s1) \<Rightarrow>
             orElse500 s1 (sessionParticipants_create s1 (s_id x) me None ''mj'')
               (\<lambda>s2. (201, s2))))"

definition getSessionById :: "int option \<Rightarrow> int option \<Rightarrow> store \<Rightarrow> nat \<times> session option" where
  "getSessionById userId idParam s =
     (case idParam of
        None \<Rightarrow> (400, None)
      | Some sessionId \<Rightarrow>
          (case session_findUnique s sessionId of
             None \<Rightarrow> (404, None)
           | Some x \<Rightarrow> (200, Some x)))"

text \<open>\<open>session.participants.find(p => p.userId === userId)\<close>\<close>

definition participantData :: "store \<Rightarrow> session \<Rightarrow> int \<Rightarrow> participant option" where
  "participantData s x me = find (\<lambda>p. p_userId p = me) (session_participants s x)"

text \<open>\<open>participantData?.role === 'admin'\<close>\<close>

definition role_is_admin :: "participant option \<Rightarrow> bool" where
  "role_is_admin pd = (case pd of None \<Rightarrow> False | Some p \<Rightarrow> p_role p = ''admin'')"

record session_update_body =
  su_title :: "string option"
  su_description :: "string option option"
  su_scheduledAt :: "string option option"
  su_status :: "string option"

definition session_updateData :: "session_update_body \<Rightarrow> session \<Rightarrow> session" where
  "session_updateData b x =
     x\<lparr>s_title := (if truthy_str (su_title b) then the (su_title b) else s_title x),
       s_description := (case su_description b of None \<Rightarrow> s_description x | Some v \<Rightarrow> v),
       s_scheduledAt := (case su_scheduledAt b of None \<Rightarrow> s_scheduledAt x
                         | Some v \<Rightarrow> (if truthy_str v then v else None)),
       s_status := (if truthy_str (su_status b) then the (su_status b) else s_status x)\<rparr>"

definition updateSession :: "int \<Rightarrow> int option \<Rightarrow> session_update_body \<Rightarrow> store \<Rightarrow> nat \<times> store" where
  "updateSession me idParam b s =
     (case idParam of
        None \<Rightarrow> (400, s)
      | Some sessionId \<Rightarrow>
          (case session_findUnique s sessionId of
             None \<Rightarrow> (404, s)
           | Some x \<Rightarrow>
               (let isGM = (s_gmId x = me);
                    isAdmin = role_is_admin (participantData s x me)
                in if \<not> isGM \<and> \<not> isAdmin then (403, s)
                   else orElse500 s (session_update s sessionId (session_updateData b))
                          (\<lambda>s1. (200, s1)))))"

text \<open>\<open>POST /sessions/:id/participants\<close>\<close>

definition sc_addParticipant ::
  "int \<Rightarrow> int option \<Rightarrow> int option \<Rightarrow> int option \<Rightarrow> string option \<Rightarrow> store \<Rightarrow> nat \<times> store" where
  "sc_addParticipant currentUserId idParam userId characterId role s =
     (case idParam of
        None \<Rightarrow> (400, s)
      | Some sessionId \<Rightarrow>
          if \<not> truthy_int userId \<or> \<not> truthy_str role then (400, s)
          else
            (case session_findUnique s sessionId of
               None \<Rightarrow> (404, s)
             | Some x \<Rightarrow>
                 (let isGM = (s_gmId x = currentUserId);
                      isSelf = (the userId = currentUserId);
                      isAdmin = role_is_admin (participantData s x currentUserId)
                  in if \<not> isSelf \<and> \<not> isGM \<and> \<not> isAdmin then (403, s)
                     else if user_findUnique s (the userId) = None then (404, s)
                     else if truthy_int characterId
                             \<and> character_findOwned s (the characterId) (the userId) = None
                     then (404, s)
                     else if participant_findFirst s sessionId (the userId) \<noteq> None then (400, s)
                     else orElse500 s
                            (sessionParticipants_create s sessionId (the userId) characterId
                               (if isSelf \<and> \<not> isGM then ''joueur'' else the role))
                            (\<lambda>s1. (201, s1)))))"

definition deleteSession :: "int \<Rightarrow> int option \<Rightarrow> store \<Rightarrow> nat \<times> store" where
  "deleteSession me idParam s =
     (case idParam of
        None \<Rightarrow> (400, s)
      | Some sessionId \<Rightarrow>
          (case session_findUnique s sessionId of
             None \<Rightarrow> (404, s)
           | Some x \<Rightarrow>
               (let isGM = (s_gmId x = me);
                    isAdmin = role_is_admin (participantData s x me)
                in if \<not> isGM \<and> \<not> isAdmin then (403, s)
                   else
                     (let s1 = sessionParticipants_deleteMany s (\<lambda>p. p_sessionId p = sessionId);
                          s2 = diceRoll_deleteMany s1 (\<lambda>d. d_sessionId d = sessionId);
                          s3 = character_detachSession s2 sessionId
                      in orElse500 s3 (session_delete s3 sessionId) (\<lambda>s4. (200, s4))))))"

text \<open>\<open>DELETE /sessions/:id/participants/:participantId\<close>\<close>

definition sc_removeParticipant :: "int \<Rightarrow> int option \<Rightarrow> int option \<Rightarrow> store \<Rightarrow> nat \<times> store" where
  "sc_removeParticipant me idParam participantIdParam s =
     (case (idParam, participantIdParam) of
        (Some sessionId, Some participantIdNum) \<Rightarrow>
          (case session_findUnique s sessionId of
             None \<Rightarrow> (404, s)
           | Some x \<Rightarrow>
               (case sessionParticipants_findUnique s participantIdNum of
                  None \<Rightarrow> (404, s)
                | Some participant \<Rightarrow>
                    if p_sessionId participant \<noteq> sessionId then (404, s)
                    else
                      (let isGM = (s_gmId x = me);
                           isAdmin = role_is_admin (participantData s x me);
                           isSelf = (p_userId participant = me)
                       in if \<not> isGM \<and> \<not> isAdmin \<and> \<not> isSelf then (403, s)
                          else orElse500 s (sessionParticipants_delete s participantIdNum)
                                 (\<lambda>s1. (200, s1)))))
      | _ \<Rightarrow> (400, s))"

section \<open>sessionParticipantsController\<close>

text \<open>\<open>POST /session-participants\<close>\<close>

definition spc_addParticipant ::
  "int \<Rightarrow> int option \<Rightarrow> int option \<Rightarrow> int option \<Rightarrow> string option \<Rightarrow> store \<Rightarrow> nat \<times> store" where
  "spc_addParticipant me sessionId userId characterId role s =
     (if \<not> truthy_int sessionId \<or> \<not> truthy_int userId \<or> \<not> truthy_str role then (400, s)
      else
        (case session_findUnique s (the sessionId) of
           None \<Rightarrow> (404, s)
         | Some x \<Rightarrow>
             (let isGM = (s_gmId x = me);
                  isSelf = (the userId = me);
                  isAdmin = (sessionAdmin_findFirst s (the sessionId) me \<noteq> None)
              in if \<not> isGM \<and> \<not> isSelf \<and> \<not> isAdmin then (403, s)
                 else if user_findUnique s (the userId) = None then (404, s)
                 else if truthy_int characterId
                         \<and> character_findOwned s (the characterId) (the userId) = None
                 then (404, s)
                 else if participant_findFirst s (the sessionId) (the userId) \<noteq> None then (400, s)
                 else orElse500 s
                        (sessionParticipants_create s (the sessionId) (the userId) characterId
                           (the role))
                        (\<lambda>s1. (201, s1)))))"

text \<open>\<open>DELETE /session-participants/:id\<close>.  The participant is read with its session;
  were the session missing, reading \<open>participant.session.gmId\<close> would throw.\<close>

definition spc_removeParticipant :: "int \<Rightarrow> int option \<Rightarrow> store \<Rightarrow> nat \<times> store" where
  "spc_removeParticipant me idParam s =
     (case idParam of
        None \<Rightarrow> (400, s)
      | Some participantId \<Rightarrow>
          (case sessionParticipants_findUnique s participantId of
             None \<Rightarrow> (404, s)
           | Some participant \<Rightarrow>
               (case session_findUnique s (p_sessionId participant) of
                  None \<Rightarrow> (500, s)
                | Some x \<Rightarrow>
                    (let isGM = (s_gmId x = me);
                         isSelf = (p_userId participant = me);
                         isAdmin = role_is_admin (participantData s x me)
                     in if \<not> isGM \<and> \<not> isSelf \<and> \<not> isAdmin then (403, s)
                        else orElse500 s (sessionParticipants_delete s participantId)
                               (\<lambda>s1. (200, s1))))))"

text \<open>\<open>PUT /session-participants/:id\<close>.  \<open>role\<close> is a string or \<open>undefined\<close>;
  \<open>characterId\<close> is \<open>undefined\<close> (\<open>None\<close>), \<open>null\<close> (\<open>Some None\<close>) or a number.\<close>

definition updateParticipant ::
  "int \<Rightarrow> int option \<Rightarrow> string option \<Rightarrow> int option option \<Rightarrow> store \<Rightarrow> nat \<times> store" where
  "updateParticipant me idParam role characterId s =
     (case idParam of
        None \<Rightarrow> (400, s)
      | Some participantId \<Rightarrow>
          if role = None \<and> characterId = None then (400, s)
          else
            (case sessionParticipants_findUnique s participantId of
               None \<Rightarrow> (404, s)
             | Some participant \<Rightarrow>
                 (case session_findUnique s (p_sessionId participant) of
                    None \<Rightarrow> (500, s)
                  | Some x \<Rightarrow>
                      (let isGM = (s_gmId x = me);
                           isSelf = (p_userId participant = me);
                           isAdmin = role_is_admin (participantData s x me)
                       in if \<not> isGM \<and> \<not> isSelf \<and> \<not> isAdmin then (403, s)
                          else if (case characterId of Some (Some c) \<Rightarrow>
                                     character_findOwned s c (p_userId participant) = None
                                   | _ \<Rightarrow> False)
                          then (404, s)
                          else orElse500 s
                                 (sessionParticipants_update s participantId
                                    (\<lambda>p. p\<lparr>p_role := (case role of None \<Rightarrow> p_role p | Some r \<Rightarrow> r),
                                            p_characterId := (case characterId of
                                                                None \<Rightarrow> p_characterId p
                                                              | Some v \<Rightarrow> v)\<rparr>))
                                 (\<lambda>s1. (200, s1))))))"

section \<open>diceRollController\<close>

subsection \<open>The dice expression\<close>

text \<open>\<open>\d\<close> of a JavaScript regular expression: an ASCII digit.\<close>

definition is_digit :: "char \<Rightarrow> bool" where
  "is_digit c = (c \<in> set ''0123456789'')"

text \<open>
  \<open>/(\d+)d(\d+)([+-]\d+)?/\<close> matched at the start of a string: the three groups and
  the text after the match.  A digit is neither \<open>d\<close> nor a sign, so the greedy match is
  the only one and no backtracking is needed.
\<close>

definition dice_match_here :: "string \<Rightarrow> ((string \<times> string \<times> string option) \<times> string) option"
  where
  "dice_match_here e =
     (let g1 = takeWhile is_digit e; r1 = dropWhile is_digit e in
      if g1 = [] then None
      else
        (case r1 of
           [] \<Rightarrow> None
         | c # r2 \<Rightarrow>
             if c \<noteq> CHR ''d'' then None
             else
               (let g2 = takeWhile is_digit r2; r3 = dropWhile is_digit r2 in
                if g2 = [] then None
                else
                  (case r3 of
                     [] \<Rightarrow> Some ((g1, g2, None), [])
                   | sg # r4 \<Rightarrow>
                       if (sg = CHR ''+'' \<or> sg = CHR ''-'') \<and> takeWhile is_digit r4 \<noteq> []
                       then Some ((g1, g2, Some (sg # takeWhile is_digit r4)),
                                  dropWhile is_digit r4)
                       else Some ((g1, g2, None), r3)))))"

text \<open>\<open>/^\d+d\d+([+-]\d+)?$/.test(expression)\<close>: the match must end the string.\<close>

definition dice_regex_test :: "string \<Rightarrow> bool" where
  "dice_regex_test e = (case dice_match_here e of None \<Rightarrow> False | Some (g, rest) \<Rightarrow> rest = [])"

text \<open>\<open>expression.match(diceRegex)\<close> with the unanchored expression: the leftmost
  position where it matches.\<close>

fun dice_match :: "string \<Rightarrow> (string \<times> string \<times> string option) option" where
  "dice_match [] = None"
| "dice_match (c # cs) =
     (case dice_match_here (c # cs) of
        Some (g, rest) \<Rightarrow> Some g
      | None \<Rightarrow> dice_match cs)"

text \<open>The value of a string of decimal digits.\<close>

definition decimal :: "string \<Rightarrow> int" where
  "decimal ds = foldl (\<lambda>a c. 10 * a + (int (of_char c) - 48)) 0 ds"

text \<open>\<open>parseInt\<close> on what the groups of the expression hold: a string of digits, after
  a sign in the third group.  (On a string without a leading digit \<open>parseInt\<close> is
  \<open>NaN\<close>; the groups never are such a string.)\<close>

definition parseInt :: "string \<Rightarrow> int" where
  "parseInt t =
     (case t of
        [] \<Rightarrow> decimal []
      | c # r \<Rightarrow>
          if c = CHR ''-'' then - decimal (takeWhile is_digit r)
          else if c = CHR ''+'' then decimal (takeWhile is_digit r)
          else decimal (takeWhile is_digit t))"

subsection \<open>calculateDiceRoll\<close>

text \<open>
  The random source is an input: \<open>rnd i\<close> is what the \<open>i\<close>-th call of
  \<open>Math.random()\<close> of the request returns.  The loop
  \<open>for (let i = 0; i < numberOfDice; i++)\<close> calls it once in each round; \<open>sm\<close> is
  its variable \<open>sum\<close>.
\<close>

function dice_loop ::
  "(nat \<Rightarrow> real) \<Rightarrow> int \<Rightarrow> int \<Rightarrow> nat \<Rightarrow> int list \<Rightarrow> int \<Rightarrow> int list \<times> int" where
  "dice_loop rnd numberOfDice diceSides i rolls sm =
     (if int i < numberOfDice
      then (let roll = \<lfloor>rnd i * of_int diceSides\<rfloor> + 1
            in dice_loop rnd numberOfDice diceSides (Suc i) (rolls @ [roll]) (sm + roll))
      else (rolls, sm))"
  by pat_completeness auto
termination
  by (relation "measure (\<lambda>(rnd, n, m, i, rolls, sm). nat (n - int i))") auto

declare dice_loop.simps [simp del]

datatype dice_error = InvalidExpression | InvalidParameters

definition calculateDiceRoll :: "(nat \<Rightarrow> real) \<Rightarrow> string \<Rightarrow> dice_error + (int \<times> roll_details)" where
  "calculateDiceRoll rnd expression =
     (case dice_match expression of
        None \<Rightarrow> Inl InvalidExpression
      | Some (g1, g2, g3) \<Rightarrow>
          (let numberOfDice = parseInt g1;
               diceSides = parseInt g2;
               modifier = (case g3 of None \<Rightarrow> 0 | Some t \<Rightarrow> parseInt t)
           in if numberOfDice \<le> 0 \<or> diceSides \<le> 0 then Inl InvalidParameters
              else
                (case dice_loop rnd numberOfDice diceSides 0 [] 0 of
                   (rolls, sm) \<Rightarrow>
                     (let total = sm + modifier
                      in Inr (total, \<lparr>md_expression = expression, md_rolls = rolls,
                                       md_modifier = modifier, md_total = total\<rparr>)))))"

subsection \<open>rollDice\<close>

definition rollDice ::
  "int \<Rightarrow> (nat \<Rightarrow> real) \<Rightarrow> string option \<Rightarrow> int option \<Rightarrow> int option \<Rightarrow> store \<Rightarrow> nat \<times> store" where
  "rollDice userId rnd expression sessionId characterId s =
     (if \<not> truthy_str expression \<or> \<not> truthy_int sessionId then (400, s)
      else if \<not> dice_regex_test (the expression) then (400, s)
      else
        (case session_findUnique s (the sessionId) of
           None \<Rightarrow> (404, s)
         | Some x \<Rightarrow>
             (let isGM = (s_gmId x = userId);
                  isParticipant = participant_findFirst s (the sessionId) userId
              in if \<not> isGM \<and> isParticipant = None then (403, s)
                 else if truthy_int characterId
                         \<and> character_findOwned s (the characterId) userId = None
                 then (404, s)
                 else
                   (case calculateDiceRoll rnd (the expression) of
                      Inl e \<Rightarrow> (500, s)
                    | Inr (result, details) \<Rightarrow>
                        orElse500 s
                          (diceRoll_create s (the expression) result userId (the sessionId)
                             characterId details)
                          (\<lambda>s1. (201, s1))))))"

section \<open>Middleware and the route of a single session\<close>

text \<open>
  \<open>extractUserFromToken\<close> runs before every route (\<open>app.use\<close> in \<open>index.ts\<close>).  The
  token is \<open>None\<close> when the request carries none or an invalid one, else \<open>Some\<close> of the
  identifier it was signed for; \<open>req.user\<close> is set when that user is in the database.
\<close>

definition extractUserFromToken :: "store \<Rightarrow> int option \<Rightarrow> user option" where
  "extractUserFromToken s token =
     (case token of None \<Rightarrow> None | Some i \<Rightarrow> user_findUnique s i)"

text \<open>\<open>router.get('/:id', isAuthenticated, sessionController.getSessionById)\<close> of
  \<open>Router/sessionRoutes.ts\<close>: \<open>isAuthenticated\<close> answers 401 without \<open>req.user\<close>.\<close>

definition sessionRoutes_get_id :: "int option \<Rightarrow> int option \<Rightarrow> store \<Rightarrow> nat \<times> session option"
  where
  "sessionRoutes_get_id token idParam s =
     (case extractUserFromToken s token of
        None \<Rightarrow> (401, None)
      | Some u \<Rightarrow> getSessionById (Some (u_id u)) idParam s)"

text \<open>\<open>router.get('/:id', extractUserFromToken, sessionController.getSessionById)\<close>:
  the other revision of the session routes among the sources, without the guard.\<close>

definition sessionRoutes_get_id_open ::
  "int option \<Rightarrow> int option \<Rightarrow> store \<Rightarrow> nat \<times> session option" where
  "sessionRoutes_get_id_open token idParam s =
     getSessionById (map_option u_id (extractUserFromToken s token)) idParam s"

section \<open>Sequences of requests\<close>

text \<open>The requests that write to the store, each with the principal that sends it.\<close>

datatype request =
    Register "string option" "string option" "string option"
  | UpdateUser int "int option" "string option" "string option" "string option"
  | DeleteUser int "int option"
  | CreateCharacter int "string option" "string option" "string option" "int option"
      "string option" "json option" "json option"
  | UpdateCharacter int "int option" character_update_body
  | DeleteCharacter int "int option"
  | AssociateWithSession int "int option" "int option option"
  | CreateSession int "string option" "string option" "string option" "string option"
  | UpdateSession int "int option" session_update_body
  | DeleteSession int "int option"
  | ScAddParticipant int "int option" "int option" "int option" "string option"
  | ScRemoveParticipant int "int option" "int option"
  | SpcAddParticipant int "int option" "int option" "int option" "string option"
  | SpcRemoveParticipant int "int option"
  | UpdateParticipant int "int option" "string option" "int option option"
  | RollDice int "nat \<Rightarrow> real" "string option" "int option" "int option"

fun handle :: "(string \<Rightarrow> string) \<Rightarrow> request \<Rightarrow> store \<Rightarrow> nat \<times> store" where
  "handle h (Register un em pw) s = register h un em pw s"
| "handle h (UpdateUser me i un em pw) s = updateUser h me i un em pw s"
| "handle h (DeleteUser me i) s = deleteUser me i s"
| "handle h (CreateCharacter me n r c l b iv st) s = createCharacter me n r c l b iv st s"
| "handle h (UpdateCharacter me i b) s = updateCharacter me i b s"
| "handle h (DeleteCharacter me i) s = deleteCharacter me i s"
| "handle h (AssociateWithSession me i sid) s = associateWithSession me i sid s"
| "handle h (CreateSession me t d sch st) s = createSession me t d sch st s"
| "handle h (UpdateSession me i b) s = updateSession me i b s"
| "handle h (DeleteSession me i) s = deleteSession me i s"
| "handle h (ScAddParticipant me i uid cid r) s = sc_addParticipant me i uid cid r s"
| "handle h (ScRemoveParticipant me i pid) s = sc_removeParticipant me i pid s"
| "handle h (SpcAddParticipant me sid uid cid r) s = spc_addParticipant me sid uid cid r s"
| "handle h (SpcRemoveParticipant me i) s = spc_removeParticipant me i s"
| "handle h (UpdateParticipant me i r cid) s = updateParticipant me i r cid s"
| "handle h (RollDice me rnd e sid cid) s = rollDice me rnd e sid cid s"

text \<open>Requests executed one after the other.\<close>

fun run :: "(string \<Rightarrow> string) \<Rightarrow> request list \<Rightarrow> store \<Rightarrow> store" where
  "run h [] s = s"
| "run h (r # rs) s = run h rs (snd (handle h r s))"

text \<open>\<open>router.get('/:id', isAuthenticated, userController.getUserById)\<close> of the user
  routes.\<close>

definition userRoutes_get_id ::
  "int option \<Rightarrow> int option \<Rightarrow> store \<Rightarrow> nat \<times> (int \<times> string \<times> string) option" where
  "userRoutes_get_id token idParam s =
     (case extractUserFromToken s token of
        None \<Rightarrow> (401, None)
      | Some u \<Rightarrow> getUserById idParam s)"

section \<open>The predicates of the permission rules\<close>


text \<open>The user has a participant row with role \<open>admin\<close> in some session.\<close>

definition isSystemAdmin :: "store \<Rightarrow> int \<Rightarrow> bool" where
  "isSystemAdmin s uid = list_ex (\<lambda>p. p_userId p = uid \<and> p_role p = ''admin'') (participants s)"

text \<open>A participant row of the session for the user exists.\<close>

definition isParticipant :: "store \<Rightarrow> int \<Rightarrow> int \<Rightarrow> bool" where
  "isParticipant s sid uid = list_ex (\<lambda>p. p_sessionId p = sid \<and> p_userId p = uid) (participants s)"


section \<open>Invariants of the store\<close>

text \<open>No two participant rows share the pair (session, user).\<close>

definition unique_participants :: "store \<Rightarrow> bool" where
  "unique_participants s = distinct (map (\<lambda>p. (p_sessionId p, p_userId p)) (participants s))"

text \<open>Session identifiers come from the sequence: every session, and every session a
  participant row names, lies below the next value.\<close>

definition sessions_below_seq :: "store \<Rightarrow> bool" where
  "sessions_below_seq s =
     (list_all (\<lambda>x. s_id x < sessionSeq s) (sessions s)
      \<and> list_all (\<lambda>p. p_sessionId p < sessionSeq s) (participants s))"



text \<open>The two invariants the requests keep: the participants are unique and named
  sessions come from the sequence; the characters have positive identifiers and the
  dice rolls name characters of their users.\<close>

definition enrolment_consistent :: "store \<Rightarrow> bool" where
  "enrolment_consistent s = (unique_participants s \<and> sessions_below_seq s)"


section \<open>References to deleted rows\<close>

definition user_deleted :: "store \<Rightarrow> store \<Rightarrow> int \<Rightarrow> bool" where
  "user_deleted s s' i = (user_exists s i \<and> \<not> user_exists s' i)"

definition character_deleted :: "store \<Rightarrow> store \<Rightarrow> int \<Rightarrow> bool" where
  "character_deleted s s' i = (character_exists s i \<and> \<not> character_exists s' i)"

definition session_deleted :: "store \<Rightarrow> store \<Rightarrow> int \<Rightarrow> bool" where
  "session_deleted s s' i = (session_exists s i \<and> \<not> session_exists s' i)"

text \<open>A participant or a dice roll of the store names the user, the character, the
  session; a character is attached to the session.\<close>

definition refers_user :: "store \<Rightarrow> int \<Rightarrow> bool" where
  "refers_user s i =
     (list_ex (\<lambda>p. p_userId p = i) (participants s) \<or> list_ex (\<lambda>d. d_userId d = i) (diceRolls s))"

definition refers_character :: "store \<Rightarrow> int \<Rightarrow> bool" where
  "refers_character s i =
     (list_ex (\<lambda>p. p_characterId p = Some i) (participants s)
      \<or> list_ex (\<lambda>d. d_characterId d = Some i) (diceRolls s))"

definition refers_session :: "store \<Rightarrow> int \<Rightarrow> bool" where
  "refers_session s i =
     (list_ex (\<lambda>p. p_sessionId p = i) (participants s)
      \<or> list_ex (\<lambda>d. d_sessionId d = i) (diceRolls s)
      \<or> list_ex (\<lambda>c. c_sessionId c = Some i) (characters s))"

section \<open>The syntax of a dice expression\<close>





section \<open>A scenario\<close>

text \<open>
  Two users register and the first creates the session ``Dragon Hunt'': they are its game
  master, enrolled with role \<open>mj\<close>.
\<close>

definition lobby :: store where
  "lobby =
     run (\<lambda>pw. pw)
       [Register (Some ''alice'') (Some ''alice@example.org'') (Some ''pw-a''),
        Register (Some ''bob'') (Some ''bob@example.org'') (Some ''pw-b''),
        CreateSession 1 (Some ''Dragon Hunt'') None None None]
       empty_store"

text \<open>Then the second user enrolls through \<open>POST /sessions/1/participants\<close> and creates
  a character.\<close>

definition dragon_hunt :: store where
  "dragon_hunt =
     run (\<lambda>pw. pw)
       [ScAddParticipant 2 (Some 1) (Some 2) None (Some ''admin''),
        CreateCharacter 2 (Some ''Brom'') (Some ''dwarf'') (Some ''fighter'') (Some 1) None None None]
       lobby"


text \<open>The second user attaches their character to the session.\<close>

definition campaign :: store where
  "campaign = run (\<lambda>pw. pw) [AssociateWithSession 2 (Some 1) (Some (Some 1))] dragon_hunt"

section \<open>Facts about the queries\<close>

lemma find_None_list_ex: "(find P xs = None) = (\<not> list_ex P xs)"
  by (auto simp: find_None_iff list_ex_iff)


lemma find_Some_set: "find P xs = Some p \<Longrightarrow> p \<in> set xs \<and> P p"
  by (induction xs) (auto split: if_splits)



lemma systemAdmin_iff: "(systemAdmin_findFirst s u = None) = (\<not> isSystemAdmin s u)"
  by (simp add: systemAdmin_findFirst_def isSystemAdmin_def find_None_list_ex)






section \<open>User accounts\<close>

text \<open>
  C3.  The claim: viewing, updating and deleting a user account succeed only for the
  user themselves or a system administrator; any other principal is answered 403 and
  the record is unchanged.  This holds of \<open>updateUser\<close> and \<open>deleteUser\<close>.
  \<open>getUserById\<close> checks no permission: behind \<open>isAuthenticated\<close> it answers 200 with
  the account to every authenticated principal.  As amended: for an existing target
  user, update and delete by a principal who is neither the target nor a system
  administrator are answered 403 with the store unchanged, so they succeed only for
  the target or a system administrator; the view succeeds for every authenticated
  principal.
\<close>

theorem C3_user_account_rules:
  assumes "user_findUnique s uid = Some target"
  shows "(me \<noteq> uid \<and> \<not> isSystemAdmin s me \<longrightarrow>
            updateUser h me (Some uid) un em pw s = (403, s)
            \<and> deleteUser me (Some uid) s = (403, s))
       \<and> (fst (updateUser h me (Some uid) un em pw s) = 200 \<or> fst (deleteUser me (Some uid) s) = 200
            \<longrightarrow> me = uid \<or> isSystemAdmin s me)
       \<and> (user_exists s me \<longrightarrow>
            userRoutes_get_id (Some me) (Some uid) s
              = (200, Some (u_id target, u_username target, u_email target)))"
proof -
  have denied: "updateUser h me (Some uid) un em pw s = (403, s)
            \<and> deleteUser me (Some uid) s = (403, s)" if "me \<noteq> uid" "\<not> isSystemAdmin s me"
    using that assms by (simp add: updateUser_def deleteUser_def systemAdmin_iff)
  have view: "userRoutes_get_id (Some me) (Some uid) s
              = (200, Some (u_id target, u_username target, u_email target))" if "user_exists s me"
    using that assms
    by (auto simp: userRoutes_get_id_def extractUserFromToken_def user_exists_def getUserById_def)
  have only_when: "me = uid \<or> isSystemAdmin s me"
    if "fst (updateUser h me (Some uid) un em pw s) = 200 \<or> fst (deleteUser me (Some uid) s) = 200"
  proof (rule ccontr)
    assume "\<not> (me = uid \<or> isSystemAdmin s me)"
    then have "fst (updateUser h me (Some uid) un em pw s) = 403"
      and "fst (deleteUser me (Some uid) s) = 403"
      using denied by simp_all
    with that show False by simp
  qed
  from denied view only_when show ?thesis by blast
qed

theorem C3_user_account_rules_witness:
  "user_findUnique lobby 1 = Some (hd (users lobby)) \<and> \<not> isSystemAdmin lobby 2
   \<and> user_exists lobby 2
   \<and> updateUser (\<lambda>pw. pw) 2 (Some 1) (Some ''eve'') None (Some ''pw-e'') lobby = (403, lobby)
   \<and> deleteUser 2 (Some 1) lobby = (403, lobby)
   \<and> userRoutes_get_id (Some 2) (Some 1) lobby = (200, Some (1, ''alice'', ''alice@example.org''))"
proof -
  have a: "user_findUnique lobby 1 = Some (hd (users lobby))"
    by code_simp
  have b: "\<not> isSystemAdmin lobby 2" "user_exists lobby 2"
    by code_simp+
  have c: "u_id (hd (users lobby)) = 1" "u_username (hd (users lobby)) = ''alice''"
    "u_email (hd (users lobby)) = ''alice@example.org''"
    by code_simp+
  show ?thesis
    using a b c
      C3_user_account_rules [OF a, of 2 "\<lambda>pw. pw" "Some ''eve''" None "Some ''pw-e''"]
    by simp
qed

text \<open>The claim fails for the view: the second user of the scenario, who is not a system
  administrator, views the account of the first.\<close>

theorem C3_view_counterexample:
  "user_exists lobby 1 \<and> user_exists lobby 2 \<and> \<not> isSystemAdmin lobby 2
   \<and> fst (userRoutes_get_id (Some 2) (Some 1) lobby) = 200"
  by code_simp

section \<open>Updating and deleting a session\<close>




lemma session_deleteWhere_Inr:
  assumes "session_deleteWhere s P = Inr s'"
  shows "users s' = users s" "participants s' = participants s" "diceRolls s' = diceRolls s"
    "sessions s' = filter (\<lambda>x. \<not> P x) (sessions s)"
    "map c_id (characters s') = map c_id (characters s)"
    "map c_userId (characters s') = map c_userId (characters s)"
    "\<And>p x. p \<in> set (participants s) \<Longrightarrow> x \<in> set (sessions s) \<Longrightarrow> P x \<Longrightarrow> p_sessionId p \<noteq> s_id x"
    "\<And>d x. d \<in> set (diceRolls s) \<Longrightarrow> x \<in> set (sessions s) \<Longrightarrow> P x \<Longrightarrow> d_sessionId d \<noteq> s_id x"
    "\<And>c x. c \<in> set (characters s') \<Longrightarrow> x \<in> set (sessions s) \<Longrightarrow> P x \<Longrightarrow> c_sessionId c \<noteq> Some (s_id x)"
proof -
  let ?gone = "set (map s_id (filter P (sessions s)))"
  have fk: "\<not> list_ex (\<lambda>p. p_sessionId p \<in> ?gone) (participants s)"
      "\<not> list_ex (\<lambda>d. d_sessionId d \<in> ?gone) (diceRolls s)"
    and eq: "s' = s\<lparr>sessions := filter (\<lambda>x. \<not> P x) (sessions s),
                 characters := map (\<lambda>c. if (case c_sessionId c of None \<Rightarrow> False
                                              | Some i \<Rightarrow> i \<in> ?gone)
                                         then c\<lparr>c_sessionId := None\<rparr> else c) (characters s)\<rparr>"
    using assms by (auto simp: session_deleteWhere_def Let_def split: if_splits)
  have g: "s_id x \<in> ?gone" if "x \<in> set (sessions s)" "P x" for x
    using that by auto
  show "users s' = users s" "participants s' = participants s" "diceRolls s' = diceRolls s"
    "sessions s' = filter (\<lambda>x. \<not> P x) (sessions s)"
    by (simp_all add: eq)
  show "map c_id (characters s') = map c_id (characters s)"
    by (simp add: eq comp_def if_distrib cong: if_cong)
  show "map c_userId (characters s') = map c_userId (characters s)"
    by (simp add: eq comp_def if_distrib cong: if_cong)
  show "p_sessionId p \<noteq> s_id x" if "p \<in> set (participants s)" "x \<in> set (sessions s)" "P x" for p x
    using fk(1) g that by (auto simp: list_ex_iff)
  show "d_sessionId d \<noteq> s_id x" if "d \<in> set (diceRolls s)" "x \<in> set (sessions s)" "P x" for d x
    using fk(2) g that by (auto simp: list_ex_iff)
  show "c_sessionId c \<noteq> Some (s_id x)" if "c \<in> set (characters s')" "x \<in> set (sessions s)" "P x" for c x
    using g that by (auto simp: eq split: if_splits)
qed

lemma session_deleteWhere_ok:
  assumes "\<And>p x. p \<in> set (participants s) \<Longrightarrow> x \<in> set (sessions s) \<Longrightarrow> P x \<Longrightarrow> p_sessionId p \<noteq> s_id x"
    and "\<And>d x. d \<in> set (diceRolls s) \<Longrightarrow> x \<in> set (sessions s) \<Longrightarrow> P x \<Longrightarrow> d_sessionId d \<noteq> s_id x"
  shows "\<exists>s'. session_deleteWhere s P = Inr s'"
  using assms by (auto simp: session_deleteWhere_def Let_def list_ex_iff)

text \<open>The store a permitted deletion of a session leaves.\<close>

lemma deleteSession_allowed:
  assumes "session_findUnique s sid = Some x" "s_gmId x = u \<or> role_is_admin (participantData s x u)"
  shows "\<exists>s'. deleteSession u (Some sid) s = (200, s')
         \<and> users s' = users s
         \<and> sessions s' = filter (\<lambda>v. s_id v \<noteq> sid) (sessions s)
         \<and> participants s' = filter (\<lambda>p. p_sessionId p \<noteq> sid) (participants s)
         \<and> diceRolls s' = filter (\<lambda>d. d_sessionId d \<noteq> sid) (diceRolls s)
         \<and> map c_id (characters s') = map c_id (characters s)
         \<and> (\<forall>c\<in>set (characters s'). c_sessionId c \<noteq> Some sid)"
proof -
  define s3 where "s3 = character_detachSession
     (diceRoll_deleteMany (sessionParticipants_deleteMany s (\<lambda>p. p_sessionId p = sid))
        (\<lambda>d. d_sessionId d = sid)) sid"
  have c3: "users s3 = users s" "sessions s3 = sessions s"
    "participants s3 = filter (\<lambda>p. p_sessionId p \<noteq> sid) (participants s)"
    "diceRolls s3 = filter (\<lambda>d. d_sessionId d \<noteq> sid) (diceRolls s)"
    "map c_id (characters s3) = map c_id (characters s)"
    by (simp_all add: s3_def character_detachSession_def diceRoll_deleteMany_def
        sessionParticipants_deleteMany_def comp_def)
  have x: "x \<in> set (sessions s)" "s_id x = sid"
    using assms(1) by (auto simp: session_findUnique_def dest: find_Some_set)
  have ex: "session_exists s3 sid"
    using assms(1) by (simp add: session_exists_def session_findUnique_def c3)
  obtain s4 where s4: "session_deleteWhere s3 (\<lambda>v. s_id v = sid) = Inr s4"
    using session_deleteWhere_ok [of s3 "\<lambda>v. s_id v = sid"] by (auto simp: c3)
  note r = session_deleteWhere_Inr [OF s4]
  have "deleteSession u (Some sid) s = (200, s4)"
    using assms ex s4
    by (simp add: deleteSession_def Let_def session_delete_def orElse500_def s3_def)
  moreover have "\<forall>c\<in>set (characters s4). c_sessionId c \<noteq> Some sid"
    using r(9) [of _ x] x by (auto simp: c3)
  ultimately show ?thesis
    using r(1-5) by (simp add: c3)
qed




section \<open>The identity fields of a character\<close>






section \<open>Deletions and the rows that point to what they delete\<close>

lemma exists_iff_ids:
  "user_exists s i = (i \<in> u_id ` set (users s))"
  "character_exists s i = (i \<in> c_id ` set (characters s))"
  "session_exists s i = (i \<in> s_id ` set (sessions s))"
  by (auto simp: user_exists_def character_exists_def session_exists_def user_findUnique_def
      character_findUnique_def session_findUnique_def find_None_iff)

lemma character_deleteWhere_parts:
  fixes s P
  defines "s' \<equiv> character_deleteWhere s P"
  shows "users s' = users s" "sessions s' = sessions s"
    "characters s' = filter (\<lambda>c. \<not> P c) (characters s)"
    "map p_sessionId (participants s') = map p_sessionId (participants s)"
    "map p_userId (participants s') = map p_userId (participants s)"
    "map d_sessionId (diceRolls s') = map d_sessionId (diceRolls s)"
    "map d_userId (diceRolls s') = map d_userId (diceRolls s)"
    "\<And>p c. p \<in> set (participants s') \<Longrightarrow> c \<in> set (characters s) \<Longrightarrow> P c
        \<Longrightarrow> p_characterId p \<noteq> Some (c_id c)"
    "\<And>d c. d \<in> set (diceRolls s') \<Longrightarrow> c \<in> set (characters s) \<Longrightarrow> P c
        \<Longrightarrow> d_characterId d \<noteq> Some (c_id c)"
    "\<And>p k. p \<in> set (participants s') \<Longrightarrow> p_characterId p = Some k
        \<Longrightarrow> \<exists>q\<in>set (participants s). p_characterId q = Some k"
    "\<And>d k. d \<in> set (diceRolls s') \<Longrightarrow> d_characterId d = Some k
        \<Longrightarrow> \<exists>q\<in>set (diceRolls s). d_characterId q = Some k"
proof -
  show "users s' = users s" "sessions s' = sessions s"
    "characters s' = filter (\<lambda>c. \<not> P c) (characters s)"
    by (simp_all add: s'_def character_deleteWhere_def Let_def)
  show "map p_sessionId (participants s') = map p_sessionId (participants s)"
    "map p_userId (participants s') = map p_userId (participants s)"
    "map d_sessionId (diceRolls s') = map d_sessionId (diceRolls s)"
    "map d_userId (diceRolls s') = map d_userId (diceRolls s)"
    by (simp_all add: s'_def character_deleteWhere_def Let_def comp_def if_distrib cong: if_cong)
  show "p_characterId p \<noteq> Some (c_id c)"
    if "p \<in> set (participants s')" "c \<in> set (characters s)" "P c" for p c
    using that by (auto simp: s'_def character_deleteWhere_def Let_def split: if_splits)
  show "d_characterId d \<noteq> Some (c_id c)"
    if "d \<in> set (diceRolls s')" "c \<in> set (characters s)" "P c" for d c
    using that by (auto simp: s'_def character_deleteWhere_def Let_def split: if_splits)
  show "\<exists>q\<in>set (participants s). p_characterId q = Some k"
    if "p \<in> set (participants s')" "p_characterId p = Some k" for p k
    using that by (auto simp: s'_def character_deleteWhere_def Let_def split: if_splits)
  show "\<exists>q\<in>set (diceRolls s). d_characterId q = Some k"
    if "d \<in> set (diceRolls s')" "d_characterId d = Some k" for d k
    using that by (auto simp: s'_def character_deleteWhere_def Let_def split: if_splits)
qed

lemma map_eq_set_field:
  assumes "map f xs = map f ys" "x \<in> set xs"
  shows "f x \<in> f ` set ys"
proof -
  have "f x \<in> set (map f xs)" using assms(2) by simp
  then show ?thesis using assms(1) by simp
qed


lemma character_exists_map:
  "map c_id (characters s') = map c_id (characters s) \<Longrightarrow> character_exists s' i = character_exists s i"
  by (metis exists_iff_ids(2) set_map)

lemma deleteSession_200:
  assumes "deleteSession me i s = (200, s')"
  shows "\<exists>sid x. i = Some sid \<and> session_findUnique s sid = Some x
           \<and> (s_gmId x = me \<or> role_is_admin (participantData s x me))"
  using assms
  by (simp add: deleteSession_def Let_def split: option.splits if_splits)

lemma deleteSession_no_dangling:
  assumes "deleteSession me i s = (200, s')"
  shows "(\<exists>sid. i = Some sid \<and> session_deleted s s' sid)
       \<and> (\<forall>u. user_deleted s s' u \<longrightarrow> \<not> refers_user s' u)
       \<and> (\<forall>c. character_deleted s s' c \<longrightarrow> \<not> refers_character s' c)
       \<and> (\<forall>x. session_deleted s s' x \<longrightarrow> \<not> refers_session s' x)"
proof -
  from deleteSession_200 [OF assms] obtain sid x where i: "i = Some sid"
    and x: "session_findUnique s sid = Some x"
    and ok: "s_gmId x = me \<or> role_is_admin (participantData s x me)"
    by blast
  from deleteSession_allowed [OF x ok] assms i
  have c: "users s' = users s" "sessions s' = filter (\<lambda>v. s_id v \<noteq> sid) (sessions s)"
    "participants s' = filter (\<lambda>p. p_sessionId p \<noteq> sid) (participants s)"
    "diceRolls s' = filter (\<lambda>d. d_sessionId d \<noteq> sid) (diceRolls s)"
    "map c_id (characters s') = map c_id (characters s)"
    "\<forall>c\<in>set (characters s'). c_sessionId c \<noteq> Some sid"
    by auto
  have nouser: "\<not> user_deleted s s' u" for u
    by (simp add: user_deleted_def exists_iff_ids c)
  have nochar: "\<not> character_deleted s s' k" for k
    by (simp add: character_deleted_def character_exists_map [OF c(5)])
  have only: "x' = sid" if "session_deleted s s' x'" for x'
    using that by (auto simp: session_deleted_def exists_iff_ids c)
  have noref: "\<not> refers_session s' sid"
    using c(6) by (auto simp: refers_session_def list_ex_iff c(3,4))
  have "session_exists s sid"
    using x by (simp add: session_exists_def)
  then have gone: "session_deleted s s' sid"
    by (auto simp: session_deleted_def exists_iff_ids c)
  from nouser nochar only noref gone i show ?thesis by blast
qed

lemma deleteCharacter_200:
  assumes "deleteCharacter me i s = (200, s')"
  shows "\<exists>cid. i = Some cid \<and> character_exists s cid
           \<and> s' = character_deleteWhere
                    (diceRoll_deleteMany
                       (sessionParticipants_deleteMany s (\<lambda>p. p_characterId p = Some cid))
                       (\<lambda>d. d_characterId d = Some cid))
                    (\<lambda>c. c_id c = cid)"
  using assms
  by (auto simp: deleteCharacter_def Let_def orElse500_def character_delete_def
      character_exists_def split: option.splits if_splits)

lemma deleteCharacter_no_dangling:
  assumes "deleteCharacter me i s = (200, s')"
  shows "(\<exists>cid. i = Some cid \<and> character_deleted s s' cid)
       \<and> (\<forall>u. user_deleted s s' u \<longrightarrow> \<not> refers_user s' u)
       \<and> (\<forall>c. character_deleted s s' c \<longrightarrow> \<not> refers_character s' c)
       \<and> (\<forall>x. session_deleted s s' x \<longrightarrow> \<not> refers_session s' x)"
proof -
  from deleteCharacter_200 [OF assms] obtain cid where i: "i = Some cid"
    and ex: "character_exists s cid"
    and s': "s' = character_deleteWhere
                    (diceRoll_deleteMany
                       (sessionParticipants_deleteMany s (\<lambda>p. p_characterId p = Some cid))
                       (\<lambda>d. d_characterId d = Some cid))
                    (\<lambda>c. c_id c = cid)"
    by blast
  define s2 where "s2 = diceRoll_deleteMany
                       (sessionParticipants_deleteMany s (\<lambda>p. p_characterId p = Some cid))
                       (\<lambda>d. d_characterId d = Some cid)"
  have c2: "users s2 = users s" "sessions s2 = sessions s" "characters s2 = characters s"
    "participants s2 = filter (\<lambda>p. p_characterId p \<noteq> Some cid) (participants s)"
    "diceRolls s2 = filter (\<lambda>d. d_characterId d \<noteq> Some cid) (diceRolls s)"
    by (simp_all add: s2_def diceRoll_deleteMany_def sessionParticipants_deleteMany_def)
  note d = character_deleteWhere_parts [where s = s2 and P = "\<lambda>c. c_id c = cid"]
  have s'2: "s' = character_deleteWhere s2 (\<lambda>c. c_id c = cid)"
    by (simp add: s' s2_def)
  have nouser: "\<not> user_deleted s s' u" for u
    by (simp add: user_deleted_def exists_iff_ids s'2 d(1) c2)
  have nosess: "\<not> session_deleted s s' x" for x
    by (simp add: session_deleted_def exists_iff_ids s'2 d(2) c2)
  have only: "k = cid" if "character_deleted s s' k" for k
    using that by (auto simp: character_deleted_def exists_iff_ids s'2 d(3) c2)
  have noref: "\<not> refers_character s' cid"
    using d(10) [of _ cid] d(11) [of _ cid]
    by (auto simp: refers_character_def list_ex_iff s'2 c2)
  have gone: "character_deleted s s' cid"
    using ex by (auto simp: character_deleted_def exists_iff_ids s'2 d(3) c2)
  from nouser nosess only noref gone i show ?thesis by blast
qed


lemma user_delete_Inr:
  assumes "user_delete s i = Inr s'"
  shows "users s' = filter (\<lambda>u. u_id u \<noteq> i) (users s)" "characters s' = characters s"
    "sessions s' = sessions s" "participants s' = participants s" "diceRolls s' = diceRolls s"
  using assms by (auto simp: user_delete_def split: if_splits)

lemma deleteUser_200:
  assumes "deleteUser me i s = (200, s')"
  shows "\<exists>uid s4. i = Some uid \<and> user_exists s uid
           \<and> session_deleteWhere
                (character_deleteWhere
                   (diceRoll_deleteMany
                      (sessionParticipants_deleteMany s (\<lambda>p. p_userId p = uid))
                      (\<lambda>d. d_userId d = uid))
                   (\<lambda>c. c_userId c = uid))
                (\<lambda>x. s_gmId x = uid) = Inr s4
           \<and> user_delete s4 uid = Inr s'"
  using assms
  by (auto simp: deleteUser_def Let_def orElse500_def character_deleteMany_def
      session_deleteMany_def user_exists_def split: option.splits if_splits sum.splits)

lemma deleteUser_no_dangling:
  assumes "deleteUser me i s = (200, s')"
  shows "(\<exists>uid. i = Some uid \<and> user_deleted s s' uid)
       \<and> (\<forall>u. user_deleted s s' u \<longrightarrow> \<not> refers_user s' u)
       \<and> (\<forall>c. character_deleted s s' c \<longrightarrow> \<not> refers_character s' c)
       \<and> (\<forall>x. session_deleted s s' x \<longrightarrow> \<not> refers_session s' x)"
proof -
  define s2 where "s2 = (\<lambda>uid. diceRoll_deleteMany
                      (sessionParticipants_deleteMany s (\<lambda>p. p_userId p = uid))
                      (\<lambda>d. d_userId d = uid))"
  from deleteUser_200 [OF assms] obtain uid s4 where i: "i = Some uid"
    and ex: "user_exists s uid"
    and s4: "session_deleteWhere (character_deleteWhere (s2 uid) (\<lambda>c. c_userId c = uid))
               (\<lambda>x. s_gmId x = uid) = Inr s4"
    and s5: "user_delete s4 uid = Inr s'"
    unfolding s2_def by blast
  define s3 where "s3 = character_deleteWhere (s2 uid) (\<lambda>c. c_userId c = uid)"
  have c2: "users (s2 uid) = users s" "sessions (s2 uid) = sessions s"
    "characters (s2 uid) = characters s"
    "participants (s2 uid) = filter (\<lambda>p. p_userId p \<noteq> uid) (participants s)"
    "diceRolls (s2 uid) = filter (\<lambda>d. d_userId d \<noteq> uid) (diceRolls s)"
    by (simp_all add: s2_def diceRoll_deleteMany_def sessionParticipants_deleteMany_def)
  note c3 = character_deleteWhere_parts [where s = "s2 uid" and P = "\<lambda>c. c_userId c = uid",
      folded s3_def]
  note c4 = session_deleteWhere_Inr [OF s4 [folded s3_def]]
  note c5 = user_delete_Inr [OF s5]
  have users: "users s' = filter (\<lambda>u. u_id u \<noteq> uid) (users s)"
    by (simp add: c5 c4 c3 c2)
  have chars: "map c_id (characters s') = map c_id (filter (\<lambda>c. c_userId c \<noteq> uid) (characters s))"
    by (simp add: c5 c4 c3 c2)
  have sess: "sessions s' = filter (\<lambda>x. s_gmId x \<noteq> uid) (sessions s)"
    by (simp add: c5 c4 c3 c2)
  have parts: "participants s' = participants s3" "diceRolls s' = diceRolls s3"
    by (simp_all add: c5 c4)
  have pu: "p_userId p \<noteq> uid" if "p \<in> set (participants s3)" for p
    using map_eq_set_field [OF c3(5) that] by (auto simp: c2)
  have du: "d_userId d \<noteq> uid" if "d \<in> set (diceRolls s3)" for d
    using map_eq_set_field [OF c3(7) that] by (auto simp: c2)
  have only: "u = uid" if "user_deleted s s' u" for u
    using that by (auto simp: user_deleted_def exists_iff_ids users)
  have noref_u: "\<not> refers_user s' uid"
    using pu du by (auto simp: refers_user_def list_ex_iff parts)
  have gone: "user_deleted s s' uid"
    using ex by (auto simp: user_deleted_def exists_iff_ids users)
  have noref_c: "\<not> refers_character s' k" if "character_deleted s s' k" for k
  proof -
    from that obtain c where c: "c \<in> set (characters s)" "c_id c = k"
      by (auto simp: character_deleted_def exists_iff_ids)
    have "k \<notin> set (map c_id (characters s'))"
      using that by (simp add: character_deleted_def exists_iff_ids)
    then have "c_userId c = uid"
      using c unfolding chars by auto
    then show ?thesis
      using c3(8) [of _ c] c3(9) [of _ c] c
      by (auto simp: refers_character_def list_ex_iff parts c2)
  qed
  have noref_s: "\<not> refers_session s' x" if "session_deleted s s' x" for x
  proof -
    from that obtain y where y: "y \<in> set (sessions s)" "s_id y = x"
      by (auto simp: session_deleted_def exists_iff_ids)
    have "x \<notin> s_id ` set (sessions s')"
      using that by (simp add: session_deleted_def exists_iff_ids)
    then have gm: "s_gmId y = uid"
      using y unfolding sess by auto
    have y3: "y \<in> set (sessions s3)"
      using y by (simp add: c3 c2)
    have "c_sessionId c \<noteq> Some x" if "c \<in> set (characters s')" for c
      using c4(9) [of c y] that y y3 gm by (simp add: c5)
    then show ?thesis
      using c4(7) [of _ y] c4(8) [of _ y] y y3 gm
      by (auto simp: refers_session_def list_ex_iff parts)
  qed
  from only noref_u gone noref_c noref_s i show ?thesis by blast
qed

text \<open>
  C5.  After a deletion of a session, a user or a character that is answered 200, for
  every user, character and session that was in the store before and is not in the
  store after (the row named and the rows deleted along with it, such as the characters
  and the sessions of a deleted user): no participant row and no dice roll names it,
  and no character is attached to such a session.  The row the request names is among
  the deleted ones.
\<close>

theorem C5_no_reference_to_deleted_rows:
  assumes "deleteSession me i s = (200, s') \<or> deleteUser me i s = (200, s')
           \<or> deleteCharacter me i s = (200, s')"
  shows "(\<forall>u. user_deleted s s' u \<longrightarrow> \<not> refers_user s' u)
       \<and> (\<forall>c. character_deleted s s' c \<longrightarrow> \<not> refers_character s' c)
       \<and> (\<forall>x. session_deleted s s' x \<longrightarrow> \<not> refers_session s' x)
       \<and> (deleteSession me i s = (200, s') \<longrightarrow> (\<exists>sid. i = Some sid \<and> session_deleted s s' sid))
       \<and> (deleteUser me i s = (200, s') \<longrightarrow> (\<exists>uid. i = Some uid \<and> user_deleted s s' uid))
       \<and> (deleteCharacter me i s = (200, s') \<longrightarrow> (\<exists>cid. i = Some cid \<and> character_deleted s s' cid))"
  using assms deleteSession_no_dangling [of me i s s'] deleteUser_no_dangling [of me i s s']
    deleteCharacter_no_dangling [of me i s s']
  by blast

theorem C5_no_reference_to_deleted_rows_witness:
  "fst (deleteUser 1 (Some 1) lobby) = 200
   \<and> user_deleted lobby (snd (deleteUser 1 (Some 1) lobby)) 1
   \<and> session_deleted lobby (snd (deleteUser 1 (Some 1) lobby)) 1
   \<and> \<not> refers_user (snd (deleteUser 1 (Some 1) lobby)) 1
   \<and> \<not> refers_session (snd (deleteUser 1 (Some 1) lobby)) 1
   \<and> fst (deleteSession 1 (Some 1) campaign) = 200
   \<and> \<not> refers_session (snd (deleteSession 1 (Some 1) campaign)) 1
   \<and> fst (deleteCharacter 2 (Some 1) campaign) = 200
   \<and> \<not> refers_character (snd (deleteCharacter 2 (Some 1) campaign)) 1"
proof -
  have a: "fst (deleteUser 1 (Some 1) lobby) = 200" "fst (deleteSession 1 (Some 1) campaign) = 200"
    "fst (deleteCharacter 2 (Some 1) campaign) = 200"
    by code_simp+
  have b: "user_deleted lobby (snd (deleteUser 1 (Some 1) lobby)) 1"
    "session_deleted lobby (snd (deleteUser 1 (Some 1) lobby)) 1"
    "session_deleted campaign (snd (deleteSession 1 (Some 1) campaign)) 1"
    "character_deleted campaign (snd (deleteCharacter 2 (Some 1) campaign)) 1"
    by code_simp+
  have u: "deleteUser 1 (Some 1) lobby = (200, snd (deleteUser 1 (Some 1) lobby))"
    using a(1) by (metis prod.collapse)
  have x: "deleteSession 1 (Some 1) campaign = (200, snd (deleteSession 1 (Some 1) campaign))"
    using a(2) by (metis prod.collapse)
  have c: "deleteCharacter 2 (Some 1) campaign = (200, snd (deleteCharacter 2 (Some 1) campaign))"
    using a(3) by (metis prod.collapse)
  show ?thesis
    using a b
      C5_no_reference_to_deleted_rows [of 1 "Some 1" lobby "snd (deleteUser 1 (Some 1) lobby)"] u
      C5_no_reference_to_deleted_rows [of 1 "Some 1" campaign
        "snd (deleteSession 1 (Some 1) campaign)"] x
      C5_no_reference_to_deleted_rows [of 2 "Some 1" campaign
        "snd (deleteCharacter 2 (Some 1) campaign)"] c
    by blast
qed

text \<open>
  \<open>deleteUser\<close> deletes the sessions of the user without deleting what the other users
  hold in them.  Where another user participates, the database refuses the deletion
  of the session: the request is answered 500, and the participant rows of the user,
  deleted before, stay deleted.
\<close>

lemma deleteUser_of_a_game_master_with_players:
  "fst (deleteUser 1 (Some 1) dragon_hunt) = 500
   \<and> user_exists (snd (deleteUser 1 (Some 1) dragon_hunt)) 1
   \<and> map p_userId (participants dragon_hunt) = [1, 2]
   \<and> map p_userId (participants (snd (deleteUser 1 (Some 1) dragon_hunt))) = [2]"
  by code_simp

section \<open>Rolling dice\<close>

lemma not_digit_letters [simp]:
  "\<not> is_digit (CHR ''d'')" "\<not> is_digit (CHR ''+'')" "\<not> is_digit (CHR ''-'')"
  by (simp_all add: is_digit_def)




















section \<open>What every request keeps\<close>

text \<open>
  A property of the store that every write of the handlers keeps, under what the handler
  has checked before the write, is kept by every request: an update leaves the
  identifying columns alone, a participant is created for a pair that has no row yet
  (or, in \<open>createSession\<close>, for the session just created), a dice roll names no
  character or one its user owns.
\<close>

lemma orElse500_keeps:
  assumes "I s" "\<And>s'. r = Inr s' \<Longrightarrow> I (snd (k s'))"
  shows "I (snd (orElse500 s r k))"
  using assms by (cases r) (simp_all add: orElse500_def)

lemma handle_keeps:
  assumes I: "I s"
    and uc: "\<And>s a b c s'. I s \<Longrightarrow> user_create s a b c = Inr s' \<Longrightarrow> I s'"
    and uu: "\<And>s i f s'. I s \<Longrightarrow> user_update s i f = Inr s' \<Longrightarrow> I s'"
    and ud: "\<And>s i s'. I s \<Longrightarrow> user_delete s i = Inr s' \<Longrightarrow> I s'"
    and cc: "\<And>s c s'. I s \<Longrightarrow> character_create s c = Inr s' \<Longrightarrow> I s'"
    and cu: "\<And>s i f s'. I s \<Longrightarrow> character_update s i f = Inr s'
           \<Longrightarrow> (\<And>c. c_id (f c) = c_id c \<and> c_userId (f c) = c_userId c) \<Longrightarrow> I s'"
    and cs: "\<And>s sid. I s \<Longrightarrow> I (character_detachSession s sid)"
    and cd: "\<And>s P. I s \<Longrightarrow> I (character_deleteWhere s P)"
    and sc: "\<And>s t d sch st gm x s1. I s \<Longrightarrow> session_create s t d sch st gm = Inr (x, s1) \<Longrightarrow> I s1"
    and sp: "\<And>s t d sch st gm x s1 r s2. I s \<Longrightarrow> session_create s t d sch st gm = Inr (x, s1)
           \<Longrightarrow> sessionParticipants_create s1 (s_id x) gm None r = Inr s2 \<Longrightarrow> I s2"
    and su: "\<And>s i f s'. I s \<Longrightarrow> session_update s i f = Inr s' \<Longrightarrow> (\<And>x. s_id (f x) = s_id x)
           \<Longrightarrow> I s'"
    and sd: "\<And>s P s'. I s \<Longrightarrow> session_deleteWhere s P = Inr s' \<Longrightarrow> I s'"
    and pc: "\<And>s sid uid cid r s'. I s \<Longrightarrow> participant_findFirst s sid uid = None
           \<Longrightarrow> sessionParticipants_create s sid uid cid r = Inr s' \<Longrightarrow> I s'"
    and pu: "\<And>s i f s'. I s \<Longrightarrow> sessionParticipants_update s i f = Inr s'
           \<Longrightarrow> (\<And>p. p_sessionId (f p) = p_sessionId p \<and> p_userId (f p) = p_userId p) \<Longrightarrow> I s'"
    and pd: "\<And>s P. I s \<Longrightarrow> I (sessionParticipants_deleteMany s P)"
    and dc: "\<And>s e res uid sid cid md s'. I s \<Longrightarrow> diceRoll_create s e res uid sid cid md = Inr s'
           \<Longrightarrow> (truthy_int cid \<Longrightarrow> character_findOwned s (the cid) uid \<noteq> None) \<Longrightarrow> I s'"
    and dd: "\<And>s P. I s \<Longrightarrow> I (diceRoll_deleteMany s P)"
  shows "I (snd (handle h r s))"
proof -
  note ok = orElse500_keeps [of I]
  have cu': "I s'" if "character_update s0 i (character_updateData b) = Inr s'" "I s0" for s0 i b s'
    using that(2,1) by (rule cu) (simp add: character_updateData_def)
  have ca: "I s'" if "character_update s0 i (\<lambda>c. c\<lparr>c_sessionId := v\<rparr>) = Inr s'" "I s0" for s0 i v s'
    using that(2,1) by (rule cu) simp
  have su': "I s'" if "session_update s0 i (session_updateData b) = Inr s'" "I s0" for s0 i b s'
    using that(2,1) by (rule su) (simp add: session_updateData_def)
  have pa: "I s'"
    if "sessionParticipants_update s0 i (\<lambda>p. p\<lparr>p_characterId := v\<rparr>) = Inr s'" "I s0" for s0 i v s'
    using that(2,1) by (rule pu) simp
  have pr: "I s'"
    if "sessionParticipants_update s0 i (\<lambda>p. p\<lparr>p_role := v\<rparr>) = Inr s'" "I s0" for s0 i v s'
    using that(2,1) by (rule pu) simp
  have pu': "I s'"
    if "sessionParticipants_update s0 i (\<lambda>p. p\<lparr>p_role := f p, p_characterId := g p\<rparr>) = Inr s'" "I s0"
    for s0 i f g s'
    using that(2,1) by (rule pu) simp
  show ?thesis
  proof (cases r)
  case (Register un em pw)
  show ?thesis
    unfolding Register handle.simps register_def
    using I by (auto intro!: ok elim: uc [rotated])
next
  case (UpdateUser me i un em pw)
  show ?thesis
    unfolding UpdateUser handle.simps updateUser_def
    using I by (auto intro!: ok elim: uu [rotated] split: option.splits)
next
  case (DeleteUser me i)
  show ?thesis
    unfolding DeleteUser handle.simps deleteUser_def Let_def character_deleteMany_def
      session_deleteMany_def
    using I
      by (auto intro!: ok pd dd cd elim: sd [rotated] split: option.splits)
        (erule ud [rotated], erule sd [rotated], intro cd dd pd, assumption)+
next
  case (CreateCharacter me n ra c l b iv st)
  show ?thesis
    unfolding CreateCharacter handle.simps createCharacter_def
    using I by (auto intro!: ok elim: cc [rotated])
next
  case (UpdateCharacter me i b)
  show ?thesis
    unfolding UpdateCharacter handle.simps updateCharacter_def Let_def
    using I by (auto intro!: ok elim: cu' split: option.splits)
next
  case (DeleteCharacter me i)
  show ?thesis
    unfolding DeleteCharacter handle.simps deleteCharacter_def Let_def character_delete_def
    using I by (auto intro!: ok pd dd cd split: option.splits)
next
  case (AssociateWithSession me i sid)
  show ?thesis
    unfolding AssociateWithSession handle.simps associateWithSession_def Let_def
    using I
    by (auto intro!: ok split: option.splits)
      (erule pa | erule pc [rotated 2] | erule ca | assumption)+
next
  case (CreateSession me t d sch st)
  show ?thesis
    unfolding CreateSession handle.simps createSession_def
    using I by (auto intro!: ok elim: sc [rotated] sp [rotated] split: sum.splits)
next
  case (UpdateSession me i b)
  show ?thesis
    unfolding UpdateSession handle.simps updateSession_def Let_def
    using I by (auto intro!: ok elim: su' split: option.splits)
next
  case (DeleteSession me i)
  show ?thesis
    unfolding DeleteSession handle.simps deleteSession_def Let_def session_delete_def
    using I by (auto intro!: ok pd dd cs elim: sd [rotated] split: option.splits)
next
  case (ScAddParticipant me i uid cid ra)
  show ?thesis
    unfolding ScAddParticipant handle.simps sc_addParticipant_def Let_def
    using I by (auto intro!: ok elim: pc [rotated 2] split: option.splits)
next
  case (ScRemoveParticipant me i pid)
  show ?thesis
    unfolding ScRemoveParticipant handle.simps sc_removeParticipant_def Let_def
      sessionParticipants_delete_def
    using I by (auto intro!: ok pd split: option.splits)
next
  case (SpcAddParticipant me sid uid cid ra)
  show ?thesis
    unfolding SpcAddParticipant handle.simps spc_addParticipant_def Let_def
    using I by (auto intro!: ok elim: pc [rotated 2] split: option.splits)
next
  case (SpcRemoveParticipant me i)
  show ?thesis
    unfolding SpcRemoveParticipant handle.simps spc_removeParticipant_def Let_def
      sessionParticipants_delete_def
    using I by (auto intro!: ok pd split: option.splits)
next
  case (UpdateParticipant me i ra cid)
  show ?thesis
    unfolding UpdateParticipant handle.simps updateParticipant_def Let_def
    using I
      by (auto intro!: ok split: option.splits)
        (erule pu' | erule pr | erule pa | assumption)+
next
  case (RollDice me rnd e sid cid)
  show ?thesis
    unfolding RollDice handle.simps rollDice_def Let_def
    using I
      by (auto intro!: ok elim: dc [rotated] split: option.splits sum.splits)
        (erule dc [rotated], simp, assumption)+
  qed
qed


subsection \<open>The participants stay unique\<close>

lemma enrolment_frame:
  assumes "enrolment_consistent s" "participants s' = participants s" "sessions s' = sessions s"
    "sessionSeq s' = sessionSeq s"
  shows "enrolment_consistent s'"
  using assms by (simp add: enrolment_consistent_def unique_participants_def sessions_below_seq_def)

lemma enrolment_user_create:
  assumes "enrolment_consistent s" "user_create s a b c = Inr s'"
  shows "enrolment_consistent s'"
  using assms(1) by (rule enrolment_frame) (use assms(2) in \<open>auto simp: user_create_def split: if_splits\<close>)

lemma enrolment_user_update:
  assumes "enrolment_consistent s" "user_update s i f = Inr s'"
  shows "enrolment_consistent s'"
  using assms(1) by (rule enrolment_frame) (use assms(2) in \<open>auto simp: user_update_def split: if_splits option.splits\<close>)

lemma enrolment_user_delete:
  assumes "enrolment_consistent s" "user_delete s i = Inr s'"
  shows "enrolment_consistent s'"
  using assms(1) by (rule enrolment_frame) (use assms(2) in \<open>auto simp: user_delete_def split: if_splits\<close>)

lemma enrolment_character_create:
  assumes "enrolment_consistent s" "character_create s c = Inr s'"
  shows "enrolment_consistent s'"
  using assms(1) by (rule enrolment_frame) (use assms(2) in \<open>auto simp: character_create_def split: if_splits\<close>)

lemma enrolment_character_update:
  assumes "enrolment_consistent s" "character_update s i f = Inr s'"
  shows "enrolment_consistent s'"
  using assms(1) by (rule enrolment_frame) (use assms(2) in \<open>auto simp: character_update_def split: if_splits option.splits\<close>)

lemma enrolment_character_detachSession: "enrolment_consistent s \<Longrightarrow> enrolment_consistent (character_detachSession s sid)"
  by (erule enrolment_frame) (simp_all add: character_detachSession_def)

lemma enrolment_maps:
  assumes "enrolment_consistent s" "map (\<lambda>p. (p_sessionId p, p_userId p)) (participants s')
      = map (\<lambda>p. (p_sessionId p, p_userId p)) (participants s)"
    "sessions s' = sessions s" "sessionSeq s' = sessionSeq s"
  shows "enrolment_consistent s'"
proof -
  have "map p_sessionId (participants s') = map p_sessionId (participants s)"
    using arg_cong [OF assms(2), of "map fst"] by (simp add: comp_def)
  then have "list_all (\<lambda>i. i < sessionSeq s) (map p_sessionId (participants s'))
      = list_all (\<lambda>i. i < sessionSeq s) (map p_sessionId (participants s))"
    by simp
  then have "list_all (\<lambda>p. p_sessionId p < sessionSeq s) (participants s')
      = list_all (\<lambda>p. p_sessionId p < sessionSeq s) (participants s)"
    by (simp add: list_all_iff)
  with assms show ?thesis
    by (simp add: enrolment_consistent_def unique_participants_def sessions_below_seq_def)
qed

lemma enrolment_character_deleteWhere: "enrolment_consistent s \<Longrightarrow> enrolment_consistent (character_deleteWhere s P)"
  by (erule enrolment_maps)
    (simp_all add: character_deleteWhere_def Let_def comp_def if_distrib cong: if_cong)

lemma enrolment_session_create:
  assumes "enrolment_consistent s" "session_create s t d sch st gm = Inr (x, s1)"
  shows "enrolment_consistent s1"
proof -
  from assms(2) have x: "participants s1 = participants s"
    "sessions s1 = sessions s @ [x]" "sessionSeq s1 = sessionSeq s + 1" "s_id x = sessionSeq s"
    by (auto simp: session_create_def Let_def split: if_splits)
  from assms(1) show ?thesis
    by (auto simp: enrolment_consistent_def unique_participants_def sessions_below_seq_def list_all_iff x
        intro: less_imp_le)
qed

lemma enrolment_createSession_enrol:
  assumes "enrolment_consistent s" "session_create s t d sch st gm = Inr (x, s1)"
    "sessionParticipants_create s1 (s_id x) gm None r = Inr s2"
  shows "enrolment_consistent s2"
proof -
  from assms(2) have x: "s_id x = sessionSeq s" "participants s1 = participants s"
    "sessions s1 = sessions s @ [x]" "sessionSeq s1 = sessionSeq s + 1"
    by (auto simp: session_create_def Let_def split: if_splits)
  from assms(3) have s2: "participants s2 = participants s1 @
        [\<lparr>p_id = participantSeq s1, p_sessionId = s_id x, p_userId = gm, p_characterId = None,
          p_role = r\<rparr>]" "sessions s2 = sessions s1" "sessionSeq s2 = sessionSeq s1"
    by (auto simp: sessionParticipants_create_def split: if_splits)
  from assms(1) have "\<forall>p\<in>set (participants s). p_sessionId p < sessionSeq s"
    by (simp add: enrolment_consistent_def sessions_below_seq_def list_all_iff)
  then have "(sessionSeq s, gm) \<notin> (\<lambda>p. (p_sessionId p, p_userId p)) ` set (participants s)"
    by auto
  with assms(1) show ?thesis
    by (auto simp: enrolment_consistent_def unique_participants_def sessions_below_seq_def list_all_iff x s2
        intro: less_imp_le)
qed

lemma enrolment_session_update:
  assumes "enrolment_consistent s" "session_update s i f = Inr s'" "\<And>x. s_id (f x) = s_id x"
  shows "enrolment_consistent s'"
proof -
  from assms(2) have s': "s' = s\<lparr>sessions := map (\<lambda>v. if s_id v = i then f v else v) (sessions s)\<rparr>"
    by (auto simp: session_update_def split: option.splits)
  have "map s_id (sessions s') = map s_id (sessions s)"
    using assms(3) by (simp add: s' comp_def if_distrib cong: if_cong)
  then have "list_all (\<lambda>i. i < sessionSeq s) (map s_id (sessions s'))
      = list_all (\<lambda>i. i < sessionSeq s) (map s_id (sessions s))"
    by simp
  then have "list_all (\<lambda>x. s_id x < sessionSeq s) (sessions s')
      = list_all (\<lambda>x. s_id x < sessionSeq s) (sessions s)"
    by (simp add: list_all_iff)
  moreover have "participants s' = participants s" "sessionSeq s' = sessionSeq s"
    by (simp_all add: s')
  ultimately show ?thesis
    using assms(1) by (simp add: enrolment_consistent_def unique_participants_def sessions_below_seq_def)
qed

lemma enrolment_session_deleteWhere:
  assumes "enrolment_consistent s" "session_deleteWhere s P = Inr s'"
  shows "enrolment_consistent s'"
proof -
  note c = session_deleteWhere_Inr [OF assms(2)]
  from assms(2) have "sessionSeq s' = sessionSeq s"
    by (auto simp: session_deleteWhere_def Let_def split: if_splits)
  with assms(1) show ?thesis
    by (simp add: enrolment_consistent_def unique_participants_def sessions_below_seq_def list_all_iff c(2,4))
qed

lemma enrolment_sessionParticipants_create:
  assumes "enrolment_consistent s" "participant_findFirst s sid uid = None"
    "sessionParticipants_create s sid uid cid r = Inr s'"
  shows "enrolment_consistent s'"
proof -
  from assms(3) have s': "participants s' = participants s @
        [\<lparr>p_id = participantSeq s, p_sessionId = sid, p_userId = uid, p_characterId = cid,
          p_role = r\<rparr>]" "sessions s' = sessions s" "sessionSeq s' = sessionSeq s"
    and ex: "session_exists s sid"
    by (auto simp: sessionParticipants_create_def split: if_splits)
  from ex obtain x where "x \<in> set (sessions s)" "s_id x = sid"
    by (auto simp: session_exists_def session_findUnique_def find_None_iff)
  with assms(1) have lt: "sid < sessionSeq s"
    by (auto simp: enrolment_consistent_def sessions_below_seq_def list_all_iff)
  from assms(2) have "(sid, uid) \<notin> (\<lambda>p. (p_sessionId p, p_userId p)) ` set (participants s)"
    by (auto simp: participant_findFirst_def find_None_iff)
  with assms(1) lt show ?thesis
    by (auto simp: enrolment_consistent_def unique_participants_def sessions_below_seq_def list_all_iff s')
qed

lemma enrolment_sessionParticipants_update:
  assumes "enrolment_consistent s" "sessionParticipants_update s i f = Inr s'"
    "\<And>p. p_sessionId (f p) = p_sessionId p \<and> p_userId (f p) = p_userId p"
  shows "enrolment_consistent s'"
  using assms(1)
proof (rule enrolment_maps)
  from assms(2) have s': "s' = s\<lparr>participants := map (\<lambda>v. if p_id v = i then f v else v) (participants s)\<rparr>"
    by (auto simp: sessionParticipants_update_def split: option.splits if_splits)
  show "map (\<lambda>p. (p_sessionId p, p_userId p)) (participants s')
      = map (\<lambda>p. (p_sessionId p, p_userId p)) (participants s)"
    using assms(3) by (simp add: s' comp_def if_distrib cong: if_cong)
  show "sessions s' = sessions s" "sessionSeq s' = sessionSeq s"
    by (simp_all add: s')
qed

lemma enrolment_sessionParticipants_deleteMany: "enrolment_consistent s \<Longrightarrow> enrolment_consistent (sessionParticipants_deleteMany s P)"
  by (auto simp: enrolment_consistent_def unique_participants_def sessions_below_seq_def list_all_iff
      sessionParticipants_deleteMany_def distinct_map_filter)

lemma enrolment_diceRoll_create:
  assumes "enrolment_consistent s" "diceRoll_create s e res uid sid cid md = Inr s'"
  shows "enrolment_consistent s'"
  using assms(1) by (rule enrolment_frame) (use assms(2) in \<open>auto simp: diceRoll_create_def split: if_splits\<close>)

lemma enrolment_diceRoll_deleteMany: "enrolment_consistent s \<Longrightarrow> enrolment_consistent (diceRoll_deleteMany s P)"
  by (erule enrolment_frame) (simp_all add: diceRoll_deleteMany_def)

lemma enrolment_handle: "enrolment_consistent s \<Longrightarrow> enrolment_consistent (snd (handle h r s))"
  by (rule handle_keeps [where I = enrolment_consistent])
    (assumption | erule (1) enrolment_user_create enrolment_user_update enrolment_user_delete enrolment_character_create
      enrolment_character_update enrolment_session_create enrolment_session_deleteWhere enrolment_diceRoll_create
    | erule enrolment_character_detachSession enrolment_character_deleteWhere
        enrolment_sessionParticipants_deleteMany enrolment_diceRoll_deleteMany
    | erule (2) enrolment_createSession_enrol enrolment_sessionParticipants_create
    | (erule (1) enrolment_session_update enrolment_sessionParticipants_update, simp))+

lemma enrolment_run: "enrolment_consistent s \<Longrightarrow> enrolment_consistent (run h rs s)"
  by (induction rs arbitrary: s) (simp_all add: enrolment_handle)


subsection \<open>The dice rolls keep naming characters of their users\<close>
























section \<open>Invariants of sequences of requests\<close>

text \<open>
  C6.  Starting from a store with no two participant rows for the same pair of session
  and user, whose sessions and named sessions lie below the next value of the session
  sequence (as in every store the requests produce), after any sequence of requests,
  and after any single request, no two participant rows share their pair; this holds
  in particular of the four requests that create a participant row
  (\<open>createSession\<close>, the two \<open>addParticipant\<close>, \<open>associateWithSession\<close>) and of
  every store reached from the empty one.
\<close>

theorem C6_participants_stay_unique:
  assumes "unique_participants s" and "sessions_below_seq s"
  shows "unique_participants (run h rs s) \<and> sessions_below_seq (run h rs s)
       \<and> unique_participants (snd (handle h r s))
       \<and> unique_participants (snd (createSession me t d sch st s))
       \<and> unique_participants (snd (sc_addParticipant me i uid cid ro s))
       \<and> unique_participants (snd (spc_addParticipant me i uid cid ro s))
       \<and> unique_participants (snd (associateWithSession me i sid s))
       \<and> unique_participants (run h rs empty_store)"
proof -
  have s: "enrolment_consistent s"
    using assms by (simp add: enrolment_consistent_def)
  have e: "enrolment_consistent empty_store"
    by (simp add: enrolment_consistent_def unique_participants_def sessions_below_seq_def
        empty_store_def)
  have one: "unique_participants (snd (handle h q s))" for q
    using enrolment_handle [OF s, of h q] by (simp add: enrolment_consistent_def)
  show ?thesis
    using enrolment_run [OF s, of h rs] enrolment_run [OF e, of h rs] one [of r]
      one [of "CreateSession me t d sch st"] one [of "ScAddParticipant me i uid cid ro"]
      one [of "SpcAddParticipant me i uid cid ro"] one [of "AssociateWithSession me i sid"]
    by (simp add: enrolment_consistent_def)
qed

theorem C6_participants_stay_unique_witness:
  "unique_participants lobby \<and> sessions_below_seq lobby
   \<and> unique_participants
        (run (\<lambda>pw. pw)
           [ScAddParticipant 2 (Some 1) (Some 2) None (Some ''admin''),
            SpcAddParticipant 2 (Some 1) (Some 2) None (Some ''joueur''),
            CreateCharacter 2 (Some ''Brom'') (Some ''dwarf'') (Some ''fighter'') (Some 1) None
              None None,
            AssociateWithSession 2 (Some 1) (Some (Some 1)),
            CreateSession 2 (Some ''Side quest'') None None None]
           lobby)
   \<and> map (\<lambda>p. (p_sessionId p, p_userId p))
        (participants
           (run (\<lambda>pw. pw)
              [ScAddParticipant 2 (Some 1) (Some 2) None (Some ''admin''),
               SpcAddParticipant 2 (Some 1) (Some 2) None (Some ''joueur''),
               CreateCharacter 2 (Some ''Brom'') (Some ''dwarf'') (Some ''fighter'') (Some 1) None
                 None None,
               AssociateWithSession 2 (Some 1) (Some (Some 1)),
               CreateSession 2 (Some ''Side quest'') None None None]
              lobby))
      = [(1, 1), (1, 2), (2, 2)]"
proof -
  have a: "unique_participants lobby" "sessions_below_seq lobby"
    by code_simp+
  have b: "map (\<lambda>p. (p_sessionId p, p_userId p))
        (participants
           (run (\<lambda>pw. pw)
              [ScAddParticipant 2 (Some 1) (Some 2) None (Some ''admin''),
               SpcAddParticipant 2 (Some 1) (Some 2) None (Some ''joueur''),
               CreateCharacter 2 (Some ''Brom'') (Some ''dwarf'') (Some ''fighter'') (Some 1) None
                 None None,
               AssociateWithSession 2 (Some 1) (Some (Some 1)),
               CreateSession 2 (Some ''Side quest'') None None None]
              lobby))
      = [(1, 1), (1, 2), (2, 2)]"
    by code_simp
  show ?thesis
    using a b C6_participants_stay_unique [OF a, of "\<lambda>pw. pw"
        "[ScAddParticipant 2 (Some 1) (Some 2) None (Some ''admin''),
          SpcAddParticipant 2 (Some 1) (Some 2) None (Some ''joueur''),
          CreateCharacter 2 (Some ''Brom'') (Some ''dwarf'') (Some ''fighter'') (Some 1) None
            None None,
          AssociateWithSession 2 (Some 1) (Some (Some 1)),
          CreateSession 2 (Some ''Side quest'') None None None]"]
    by blast
qed

subsection \<open>Rolls with a character\<close>






section \<open>Self-enrolment and the role it stores\<close>



text \<open>
  \<open>sessionParticipantsController.addParticipant\<close>, which no router among the sources
  mounts, does not override the role: called for the second user of the scenario, who
  is not the game master, with role \<open>admin\<close>, it answers 201 and the row has role
  \<open>admin\<close>.
\<close>

lemma spc_addParticipant_stores_requested_role:
  "s_gmId (hd (sessions lobby)) = 1
   \<and> fst (spc_addParticipant 2 (Some 1) (Some 2) None (Some ''admin'') lobby) = 201
   \<and> map (\<lambda>p. (p_sessionId p, p_userId p, p_role p))
        (participants (snd (spc_addParticipant 2 (Some 1) (Some 2) None (Some ''admin'') lobby)))
      = [(1, 1, ''mj''), (1, 2, ''admin'')]"
  by code_simp

section \<open>Updating a participant row\<close>




section \<open>Viewing a single session\<close>

text \<open>
  C9.  The claim: viewing a single session by its identifier succeeds for every
  principal, an unauthenticated one included, with neither 401 nor 403.  The handler
  checks no permission and needs no principal.  The route of \<open>Router/sessionRoutes.ts\<close>
  puts \<open>isAuthenticated\<close> before it.  As amended: for an existing session the handler
  answers 200 with the session to every principal and to none; through the route of
  \<open>Router/sessionRoutes.ts\<close> every authenticated principal is answered 200 and a
  request without a valid token 401; through the revision of the session routes that
  mounts the handler behind \<open>extractUserFromToken\<close> alone, every request is answered
  200.
\<close>

theorem C9_single_session_view:
  assumes "session_findUnique s sid = Some x"
  shows "getSessionById who (Some sid) s = (200, Some x)
       \<and> (extractUserFromToken s token \<noteq> None
            \<longrightarrow> sessionRoutes_get_id token (Some sid) s = (200, Some x))
       \<and> (extractUserFromToken s token = None
            \<longrightarrow> sessionRoutes_get_id token (Some sid) s = (401, None))
       \<and> sessionRoutes_get_id_open token (Some sid) s = (200, Some x)"
  using assms
  by (auto simp: getSessionById_def sessionRoutes_get_id_def sessionRoutes_get_id_open_def)

theorem C9_single_session_view_witness:
  "session_findUnique lobby 1 = Some (hd (sessions lobby))
   \<and> extractUserFromToken lobby (Some 2) \<noteq> None
   \<and> extractUserFromToken lobby None = None
   \<and> sessionRoutes_get_id (Some 2) (Some 1) lobby = (200, Some (hd (sessions lobby)))
   \<and> sessionRoutes_get_id None (Some 1) lobby = (401, None)
   \<and> sessionRoutes_get_id_open None (Some 1) lobby = (200, Some (hd (sessions lobby)))"
proof -
  have a: "session_findUnique lobby 1 = Some (hd (sessions lobby))"
    by code_simp
  have b: "extractUserFromToken lobby (Some 2) \<noteq> None" "extractUserFromToken lobby None = None"
    by code_simp+
  show ?thesis
    using a b C9_single_session_view [OF a, of None "Some 2"]
      C9_single_session_view [OF a, of None None]
    by simp
qed

text \<open>The claim fails on the route of \<open>Router/sessionRoutes.ts\<close>: a request without a
  token for the existing session 1 is answered 401 and no session.\<close>

theorem C9_guarded_route_counterexample:
  "session_exists lobby 1 \<and> sessionRoutes_get_id None (Some 1) lobby = (401, None)"
  by code_simp

end
